theory Spec2Isabelle
  imports Main
begin

section \<open>kubeconfig-updater: the two programs of the repository\<close>

text \<open>
  The repository holds two \<^verbatim>\<open>main\<close> programs. The first one (lines 1 to 442 of
  \<^verbatim>\<open>main.go\<close>) parses the kubeconfig with a YAML library into its own structs, whose
  clusters, contexts and users are slices. The second one (lines 444 to 776) uses the
  kubeconfig library of client-go, whose clusters, contexts and users are Go maps from a
  name to a pointer. Definitions of the first program carry no suffix or the suffix
  \<open>1\<close>, definitions of the second one the prefix \<open>api_\<close> or the suffix \<open>2\<close>.

  A Go \<^verbatim>\<open>string\<close> and a Go \<^verbatim>\<open>[]byte\<close> are both sequences of bytes, and a HOL
  \<^typ>\<open>char\<close> is one byte, so both are \<^typ>\<open>string\<close> here; \<open>len\<close> is \<^const>\<open>length\<close>.
\<close>

type_synonym bytes = string

subsection \<open>Truncation of secrets in the report\<close>

text \<open>
  \<^verbatim>\<open>shorten\<close> (lines 59 to 64, and again 462 to 467, the same text). The slice
  \<^verbatim>\<open>s[:5]\<close> is \<open>take 5 s\<close> and \<^verbatim>\<open>s[len(s)-5:]\<close> is \<open>drop (length s - 5) s\<close>; both
  are evaluated only when \<open>15 < length s\<close>, so no slice is out of range.
\<close>

definition shorten :: "string \<Rightarrow> string" where
  "shorten s =
     (if length s \<le> 15 then s
      else take 5 s @ ''...'' @ drop (length s - 5) s)"

text \<open>
  \<^verbatim>\<open>base64.StdEncoding.EncodeToString\<close> of the Go standard library: the alphabet of
  RFC 4648 with \<open>=\<close> padding. Three bytes make a 24-bit value that is cut into four
  6-bit digits; a rest of one or two bytes is padded.
\<close>

definition encodeStd :: string where
  "encodeStd = ''ABCDEFGHIJKLMNOPQRSTUVWXYZabcdefghijklmnopqrstuvwxyz0123456789+/''"

definition enc6 :: "nat \<Rightarrow> char" where
  "enc6 v = encodeStd ! (v mod 64)"

fun EncodeToString :: "bytes \<Rightarrow> string" where
  "EncodeToString (a # b # c # rest) =
     (let v = of_char a * 65536 + of_char b * 256 + of_char c
      in [enc6 (v div 262144), enc6 (v div 4096), enc6 (v div 64), enc6 v]
         @ EncodeToString rest)"
| "EncodeToString [a, b] =
     (let v = of_char a * 65536 + of_char b * 256
      in [enc6 (v div 262144), enc6 (v div 4096), enc6 (v div 64), CHR ''=''])"
| "EncodeToString [a] =
     (let v = of_char a * 65536
      in [enc6 (v div 262144), enc6 (v div 4096), CHR ''='', CHR ''=''])"
| "EncodeToString [] = []"

text \<open>\<^verbatim>\<open>shortenBytes\<close> (lines 470 to 479).\<close>

definition shortenBytes :: "bytes \<Rightarrow> string" where
  "shortenBytes data =
     (if length data = 0 then ''<empty>''
      else let s = EncodeToString data
           in if length s \<le> 15 then s
              else take 5 s @ ''...'' @ drop (length s - 5) s)"


subsection \<open>The data model of the first program\<close>

text \<open>
  The structs of lines 18 to 56. The three \<^verbatim>\<open>Named...\<close> structs each have a field
  \<^verbatim>\<open>Name\<close>; record fields share one name space, so they are \<open>nc_Name\<close>, \<open>nx_Name\<close>
  and \<open>nu_Name\<close> here, and the payload fields \<open>nc_Cluster\<close>, \<open>nx_Context\<close>, \<open>nu_User\<close>.
\<close>

record Cluster =
  Server :: string
  CertificateAuthorityData :: string

record NamedCluster =
  nc_Name :: string
  nc_Cluster :: Cluster

record Context =
  ctx_Cluster :: string
  ctx_User :: string

record NamedContext =
  nx_Name :: string
  nx_Context :: Context

record User =
  Token :: string
  ClientCertificateData :: string
  ClientKeyData :: string

record NamedUser =
  nu_Name :: string
  nu_User :: User

record KubeConfig =
  APIVersion :: string
  Kind :: string
  Clusters :: "NamedCluster list"
  Contexts :: "NamedContext list"
  Users :: "NamedUser list"
  CurrentContext :: string

subsection \<open>The data model of the second program\<close>

text \<open>
  The second program works on \<^verbatim>\<open>api.Config\<close> of client-go. Its declaration is not part
  of the repository; the fields are the ones the program reads and writes. The three
  mappings are Go maps from a name to a pointer. \<^verbatim>\<open>clientcmd.Load\<close> allocates one object
  per name, so no two names share an object, and a map from names to values is enough;
  a lookup that misses yields the nil pointer, here \<open>None\<close>. Certificate data is
  \<^verbatim>\<open>[]byte\<close>; \<^verbatim>\<open>bytes.Equal\<close> compares contents and takes nil for empty, which is
  equality of \<^typ>\<open>bytes\<close>.
\<close>

record api_Cluster =
  api_Server :: string
  api_CertificateAuthorityData :: bytes

record api_AuthInfo =
  api_Token :: string
  api_ClientCertificateData :: bytes
  api_ClientKeyData :: bytes

record api_Context =
  ac_Cluster :: string
  ac_AuthInfo :: string

record api_Config =
  cfg_Clusters :: "string \<rightharpoonup> api_Cluster"
  cfg_AuthInfos :: "string \<rightharpoonup> api_AuthInfo"
  cfg_Contexts :: "string \<rightharpoonup> api_Context"
  cfg_CurrentContext :: string

text \<open>
  How a run ends before \<^verbatim>\<open>main\<close> returns: \<^verbatim>\<open>os.Exit\<close> with a status, or the
  run-time panic of a nil pointer dereference.
\<close>

datatype abort = Exit nat | NilDeref

subsection \<open>The merge of the first program\<close>

text \<open>
  The verb \<^verbatim>\<open>%q\<close> of \<^verbatim>\<open>fmt.Sprintf\<close> quotes a string the way \<^verbatim>\<open>strconv.Quote\<close> does;
  it is the parameter \<open>quote\<close> of every definition that formats a name. What follows are
  the format strings of lines 341, 349, 365, 382, 385, 388 and 400.
\<close>

definition msgClusterCA1 :: "(string \<Rightarrow> string) \<Rightarrow> string \<Rightarrow> string \<Rightarrow> string \<Rightarrow> string" where
  "msgClusterCA1 quote name oldCA newCA =
     ''Updated cluster '' @ quote name @ '' certificateAuthorityData from ''
       @ shorten oldCA @ '' to '' @ shorten newCA"

definition msgClusterServer1 :: "(string \<Rightarrow> string) \<Rightarrow> string \<Rightarrow> string \<Rightarrow> string \<Rightarrow> string" where
  "msgClusterServer1 quote name oldServer newServer =
     ''Updated cluster '' @ quote name @ '' server from ''
       @ shorten oldServer @ '' to '' @ shorten newServer"

definition msgClusterAdded1 :: "(string \<Rightarrow> string) \<Rightarrow> string \<Rightarrow> Cluster \<Rightarrow> string" where
  "msgClusterAdded1 quote name c =
     ''Added new cluster '' @ quote name @ '' with server '' @ shorten (Server c)
       @ '' and certificateAuthorityData '' @ shorten (CertificateAuthorityData c)"

definition msgUserToken1 :: "(string \<Rightarrow> string) \<Rightarrow> string \<Rightarrow> string \<Rightarrow> string \<Rightarrow> string" where
  "msgUserToken1 quote name oldToken newToken =
     ''Updated user '' @ quote name @ '' token from ''
       @ shorten oldToken @ '' to '' @ shorten newToken"

definition msgUserCert1 :: "(string \<Rightarrow> string) \<Rightarrow> string \<Rightarrow> string \<Rightarrow> string \<Rightarrow> string" where
  "msgUserCert1 quote name oldCert newCert =
     ''Updated user '' @ quote name @ '' clientCertificateData from ''
       @ shorten oldCert @ '' to '' @ shorten newCert"

definition msgUserKey1 :: "(string \<Rightarrow> string) \<Rightarrow> string \<Rightarrow> string \<Rightarrow> string \<Rightarrow> string" where
  "msgUserKey1 quote name oldKey newKey =
     ''Updated user '' @ quote name @ '' clientKeyData from ''
       @ shorten oldKey @ '' to '' @ shorten newKey"

definition msgUserAdded1 :: "(string \<Rightarrow> string) \<Rightarrow> string \<Rightarrow> User \<Rightarrow> string" where
  "msgUserAdded1 quote name u =
     ''Added new user '' @ quote name @ '' with token '' @ shorten (Token u)
       @ '', clientCertificateData '' @ shorten (ClientCertificateData u)
       @ '', and clientKeyData '' @ shorten (ClientKeyData u)"

text \<open>
  The body of the loop of lines 335 to 358 for the entry \<open>c\<close> whose name is the target
  context's cluster (lines 337 to 355): the entry as rewritten and the change entries.
  \<open>upd\<close> is \<^verbatim>\<open>newContext || updateServer\<close>.
\<close>

definition clusterBody1 ::
  "(string \<Rightarrow> string) \<Rightarrow> bool \<Rightarrow> Cluster \<Rightarrow> NamedCluster \<Rightarrow> NamedCluster \<times> string list" where
  "clusterBody1 quote upd pasted c =
     (let oldCA = CertificateAuthorityData (nc_Cluster c);
          newCA = CertificateAuthorityData pasted;
          ch1 = (if oldCA \<noteq> newCA then [msgClusterCA1 quote (nc_Name c) oldCA newCA] else []);
          oldServer = Server (nc_Cluster c);
          newServer = Server pasted;
          ch2 = (if upd \<and> oldServer \<noteq> newServer
                 then [msgClusterServer1 quote (nc_Name c) oldServer newServer] else []);
          c1 = (if upd then c\<lparr>nc_Cluster := (nc_Cluster c)\<lparr>Server := newServer\<rparr>\<rparr> else c);
          c2 = c1\<lparr>nc_Cluster := (nc_Cluster c1)\<lparr>CertificateAuthorityData := newCA\<rparr>\<rparr>
      in (c2, ch1 @ ch2))"

text \<open>
  The loop itself: the first entry named like the target context's cluster is rewritten
  in place and the loop breaks. The result is the new slice with the change entries of
  this step, or \<open>None\<close> when no entry has the name (\<^verbatim>\<open>clusterUpdated\<close> stays false).
\<close>

fun clusterLoop1 ::
  "(string \<Rightarrow> string) \<Rightarrow> bool \<Rightarrow> string \<Rightarrow> Cluster \<Rightarrow> NamedCluster list
     \<Rightarrow> (NamedCluster list \<times> string list) option" where
  "clusterLoop1 quote upd tc pasted [] = None"
| "clusterLoop1 quote upd tc pasted (c # cs) =
     (if nc_Name c = tc then
        (case clusterBody1 quote upd pasted c of (c2, ch) \<Rightarrow> Some (c2 # cs, ch))
      else map_option (\<lambda>(cs', ch). (c # cs', ch)) (clusterLoop1 quote upd tc pasted cs))"

text \<open>Lines 333 to 367: the loop, then the append when the cluster was not present.\<close>

definition updateCluster1 ::
  "(string \<Rightarrow> string) \<Rightarrow> bool \<Rightarrow> bool \<Rightarrow> string \<Rightarrow> NamedCluster \<Rightarrow> KubeConfig
     \<Rightarrow> KubeConfig \<times> string list" where
  "updateCluster1 quote newContext updateServer tc pastedCluster origCfg =
     (case clusterLoop1 quote (newContext \<or> updateServer) tc (nc_Cluster pastedCluster)
             (Clusters origCfg) of
        Some (cs, ch) \<Rightarrow> (origCfg\<lparr>Clusters := cs\<rparr>, ch)
      | None \<Rightarrow>
          (origCfg\<lparr>Clusters := Clusters origCfg
               @ [\<lparr>nc_Name = tc, nc_Cluster = nc_Cluster pastedCluster\<rparr>]\<rparr>,
           [msgClusterAdded1 quote tc (nc_Cluster pastedCluster)]))"

text \<open>The loop of lines 371 to 394 over \<^verbatim>\<open>origCfg.Users\<close>, and its body.\<close>

definition userBody1 ::
  "(string \<Rightarrow> string) \<Rightarrow> User \<Rightarrow> NamedUser \<Rightarrow> NamedUser \<times> string list" where
  "userBody1 quote pasted u =
     (let oldToken = Token (nu_User u);
          oldCert = ClientCertificateData (nu_User u);
          oldKey = ClientKeyData (nu_User u);
          newToken = Token pasted;
          newCert = ClientCertificateData pasted;
          newKey = ClientKeyData pasted;
          ch1 = (if oldToken \<noteq> newToken
                 then [msgUserToken1 quote (nu_Name u) oldToken newToken] else []);
          ch2 = (if oldCert \<noteq> newCert
                 then [msgUserCert1 quote (nu_Name u) oldCert newCert] else []);
          ch3 = (if oldKey \<noteq> newKey
                 then [msgUserKey1 quote (nu_Name u) oldKey newKey] else [])
      in (u\<lparr>nu_User := pasted\<rparr>, ch1 @ ch2 @ ch3))"

fun userLoop1 ::
  "(string \<Rightarrow> string) \<Rightarrow> string \<Rightarrow> User \<Rightarrow> NamedUser list
     \<Rightarrow> (NamedUser list \<times> string list) option" where
  "userLoop1 quote tu pasted [] = None"
| "userLoop1 quote tu pasted (u # us) =
     (if nu_Name u = tu then
        (case userBody1 quote pasted u of (u2, ch) \<Rightarrow> Some (u2 # us, ch))
      else map_option (\<lambda>(us', ch). (u # us', ch)) (userLoop1 quote tu pasted us))"

text \<open>Lines 369 to 402.\<close>

definition updateUser1 ::
  "(string \<Rightarrow> string) \<Rightarrow> string \<Rightarrow> NamedUser \<Rightarrow> KubeConfig \<Rightarrow> KubeConfig \<times> string list" where
  "updateUser1 quote tu pastedUser origCfg =
     (case userLoop1 quote tu (nu_User pastedUser) (Users origCfg) of
        Some (us, ch) \<Rightarrow> (origCfg\<lparr>Users := us\<rparr>, ch)
      | None \<Rightarrow>
          (origCfg\<lparr>Users := Users origCfg @ [\<lparr>nu_Name = tu, nu_User = nu_User pastedUser\<rparr>]\<rparr>,
           [msgUserAdded1 quote tu (nu_User pastedUser)]))"

text \<open>
  Lines 330 to 402 as a whole. \<^verbatim>\<open>targetContext\<close> points at the element \<open>ti\<close> of
  \<^verbatim>\<open>origCfg.Contexts\<close>; the merge reads its cluster and user names through the pointer.
  \<^verbatim>\<open>changes\<close> starts empty and collects the entries of the cluster step, then those of
  the user step.
\<close>

definition targetCluster1 :: "KubeConfig \<Rightarrow> nat \<Rightarrow> string" where
  "targetCluster1 origCfg ti = ctx_Cluster (nx_Context (Contexts origCfg ! ti))"

definition targetUser1 :: "KubeConfig \<Rightarrow> nat \<Rightarrow> string" where
  "targetUser1 origCfg ti = ctx_User (nx_Context (Contexts origCfg ! ti))"

definition merge1 ::
  "(string \<Rightarrow> string) \<Rightarrow> bool \<Rightarrow> bool \<Rightarrow> nat \<Rightarrow> NamedCluster \<Rightarrow> NamedUser \<Rightarrow> KubeConfig
     \<Rightarrow> KubeConfig \<times> string list" where
  "merge1 quote newContext updateServer ti pastedCluster pastedUser origCfg =
     (let (cfg1, ch1) = updateCluster1 quote newContext updateServer
                          (targetCluster1 origCfg ti) pastedCluster origCfg;
          (cfg2, ch2) = updateUser1 quote (targetUser1 cfg1 ti) pastedUser cfg1
      in (cfg2, ch1 @ ch2))"

subsection \<open>The merge of the second program\<close>

text \<open>The format strings of lines 695, 700, 706, 715, 720, 725 and 731.\<close>

definition msgClusterServer2 :: "(string \<Rightarrow> string) \<Rightarrow> string \<Rightarrow> string \<Rightarrow> string \<Rightarrow> string" where
  "msgClusterServer2 quote name oldServer newServer =
     ''Updated cluster '' @ quote name @ '' server from '' @ oldServer @ '' to '' @ newServer"

definition msgClusterCA2 :: "(string \<Rightarrow> string) \<Rightarrow> string \<Rightarrow> bytes \<Rightarrow> bytes \<Rightarrow> string" where
  "msgClusterCA2 quote name oldCA newCA =
     ''Updated cluster '' @ quote name @ '' CA data from ''
       @ shortenBytes oldCA @ '' to '' @ shortenBytes newCA"

definition msgClusterAdded2 :: "(string \<Rightarrow> string) \<Rightarrow> string \<Rightarrow> api_Cluster \<Rightarrow> string" where
  "msgClusterAdded2 quote name c =
     ''Added cluster '' @ quote name @ '' with server '' @ api_Server c
       @ '' and CA data '' @ shortenBytes (api_CertificateAuthorityData c)"

definition msgUserToken2 :: "(string \<Rightarrow> string) \<Rightarrow> string \<Rightarrow> string \<Rightarrow> string \<Rightarrow> string" where
  "msgUserToken2 quote name oldToken newToken =
     ''Updated user '' @ quote name @ '' token from ''
       @ shorten oldToken @ '' to '' @ shorten newToken"

definition msgUserCert2 :: "(string \<Rightarrow> string) \<Rightarrow> string \<Rightarrow> bytes \<Rightarrow> bytes \<Rightarrow> string" where
  "msgUserCert2 quote name oldCert newCert =
     ''Updated user '' @ quote name @ '' client cert from ''
       @ shortenBytes oldCert @ '' to '' @ shortenBytes newCert"

definition msgUserKey2 :: "(string \<Rightarrow> string) \<Rightarrow> string \<Rightarrow> bytes \<Rightarrow> bytes \<Rightarrow> string" where
  "msgUserKey2 quote name oldKey newKey =
     ''Updated user '' @ quote name @ '' client key from ''
       @ shortenBytes oldKey @ '' to '' @ shortenBytes newKey"

definition msgUserAdded2 :: "(string \<Rightarrow> string) \<Rightarrow> string \<Rightarrow> api_AuthInfo \<Rightarrow> string" where
  "msgUserAdded2 quote name u =
     ''Added user '' @ quote name @ '' with token '' @ shorten (api_Token u)
       @ '', client cert '' @ shortenBytes (api_ClientCertificateData u)
       @ '', and client key '' @ shortenBytes (api_ClientKeyData u)"

text \<open>
  Lines 691 to 708. \<^verbatim>\<open>pastedCluster\<close> is a pointer that may be nil (line 629 does not
  check the lookup); both branches read \<^verbatim>\<open>pastedCluster.CertificateAuthorityData\<close>, so a
  nil pointer panics in either. Assigning through \<^verbatim>\<open>existingCluster\<close> changes the object
  the map entry points at, which is an update of the map at \<open>targetClusterName\<close>.
\<close>

definition updateCluster2 ::
  "(string \<Rightarrow> string) \<Rightarrow> bool \<Rightarrow> bool \<Rightarrow> string \<Rightarrow> api_Cluster option \<Rightarrow> api_Config
     \<Rightarrow> abort + (api_Config \<times> string list)" where
  "updateCluster2 quote newContext updateServer targetClusterName pastedCluster origCfg =
     (case pastedCluster of
        None \<Rightarrow> Inl NilDeref
      | Some pc \<Rightarrow>
         (case cfg_Clusters origCfg targetClusterName of
            Some existingCluster \<Rightarrow>
              let srv = ((updateServer \<or> newContext) \<and> api_Server existingCluster \<noteq> api_Server pc);
                  ch1 = (if srv then [msgClusterServer2 quote targetClusterName
                                        (api_Server existingCluster) (api_Server pc)] else []);
                  e1 = (if srv then existingCluster\<lparr>api_Server := api_Server pc\<rparr>
                        else existingCluster);
                  ca = (api_CertificateAuthorityData e1 \<noteq> api_CertificateAuthorityData pc);
                  ch2 = (if ca then [msgClusterCA2 quote targetClusterName
                                       (api_CertificateAuthorityData e1)
                                       (api_CertificateAuthorityData pc)] else []);
                  e2 = (if ca then e1\<lparr>api_CertificateAuthorityData :=
                                          api_CertificateAuthorityData pc\<rparr> else e1)
              in Inr (origCfg\<lparr>cfg_Clusters := (cfg_Clusters origCfg)(targetClusterName \<mapsto> e2)\<rparr>,
                      ch1 @ ch2)
          | None \<Rightarrow>
              Inr (origCfg\<lparr>cfg_Clusters := (cfg_Clusters origCfg)(targetClusterName \<mapsto> pc)\<rparr>,
                   [msgClusterAdded2 quote targetClusterName pc])))"

text \<open>Lines 710 to 733; \<^verbatim>\<open>pastedUser\<close> may be nil as well (line 686).\<close>

definition updateUser2 ::
  "(string \<Rightarrow> string) \<Rightarrow> string \<Rightarrow> api_AuthInfo option \<Rightarrow> api_Config
     \<Rightarrow> abort + (api_Config \<times> string list)" where
  "updateUser2 quote targetUserName pastedUser origCfg =
     (case pastedUser of
        None \<Rightarrow> Inl NilDeref
      | Some pu \<Rightarrow>
         (case cfg_AuthInfos origCfg targetUserName of
            Some existingUser \<Rightarrow>
              let tk = (api_Token existingUser \<noteq> api_Token pu);
                  ch1 = (if tk then [msgUserToken2 quote targetUserName
                                       (api_Token existingUser) (api_Token pu)] else []);
                  u1 = (if tk then existingUser\<lparr>api_Token := api_Token pu\<rparr> else existingUser);
                  ce = (api_ClientCertificateData u1 \<noteq> api_ClientCertificateData pu);
                  ch2 = (if ce then [msgUserCert2 quote targetUserName
                                       (api_ClientCertificateData u1)
                                       (api_ClientCertificateData pu)] else []);
                  u2 = (if ce then u1\<lparr>api_ClientCertificateData := api_ClientCertificateData pu\<rparr>
                        else u1);
                  ky = (api_ClientKeyData u2 \<noteq> api_ClientKeyData pu);
                  ch3 = (if ky then [msgUserKey2 quote targetUserName
                                       (api_ClientKeyData u2) (api_ClientKeyData pu)] else []);
                  u3 = (if ky then u2\<lparr>api_ClientKeyData := api_ClientKeyData pu\<rparr> else u2)
              in Inr (origCfg\<lparr>cfg_AuthInfos := (cfg_AuthInfos origCfg)(targetUserName \<mapsto> u3)\<rparr>,
                      ch1 @ ch2 @ ch3)
          | None \<Rightarrow>
              Inr (origCfg\<lparr>cfg_AuthInfos := (cfg_AuthInfos origCfg)(targetUserName \<mapsto> pu)\<rparr>,
                   [msgUserAdded2 quote targetUserName pu])))"

text \<open>
  Lines 689 to 733. \<^verbatim>\<open>targetContext\<close> is the pointer stored under \<open>targetContextName\<close>
  in \<^verbatim>\<open>origCfg.Contexts\<close>; line 711 reads the user name through it. A nil
  \<^verbatim>\<open>targetContext\<close> has left the program at line 567.
\<close>

definition merge2 ::
  "(string \<Rightarrow> string) \<Rightarrow> bool \<Rightarrow> bool \<Rightarrow> string \<Rightarrow> string \<Rightarrow> api_Cluster option
     \<Rightarrow> api_AuthInfo option \<Rightarrow> api_Config \<Rightarrow> abort + (api_Config \<times> string list)" where
  "merge2 quote newContext updateServer targetContextName targetClusterName
          pastedCluster pastedUser origCfg =
     (case updateCluster2 quote newContext updateServer targetClusterName pastedCluster origCfg of
        Inl a \<Rightarrow> Inl a
      | Inr (cfg1, ch1) \<Rightarrow>
         (case cfg_Contexts cfg1 targetContextName of
            None \<Rightarrow> Inl NilDeref
          | Some targetContext \<Rightarrow>
             (case updateUser2 quote (ac_AuthInfo targetContext) pastedUser cfg1 of
                Inl a \<Rightarrow> Inl a
              | Inr (cfg2, ch2) \<Rightarrow> Inr (cfg2, ch1 @ ch2))))"


subsection \<open>What a run does: events, exits and the combinators of a run\<close>

text \<open>
  A run is observed through the prompts it shows, the text it prints and the files it
  writes. A prompt shows a title (and the options of a list); \<^verbatim>\<open>WriteFile\<close> is the
  call of \<^verbatim>\<open>ioutil.WriteFile\<close> with its path and data, whether it succeeds or not.
\<close>

datatype event =
    Select string "string list"
  | Input "string list"
  | Confirm string
  | Text string
  | Stdout string
  | Stderr string
  | WriteFile string bytes

text \<open>
  A step of a run yields the events it caused and either the way the run ended there
  or the value it computed.
\<close>

type_synonym 'a io = "event list \<times> (abort + 'a)"

definition ret :: "'a \<Rightarrow> 'a io" where
  "ret x = ([], Inr x)"

definition io_bind :: "'a io \<Rightarrow> ('a \<Rightarrow> 'b io) \<Rightarrow> 'b io" where
  "io_bind m f =
     (case m of
        (es, Inl a) \<Rightarrow> (es, Inl a)
      | (es, Inr x) \<Rightarrow> (case f x of (es', r) \<Rightarrow> (es @ es', r)))"

definition emit :: "event \<Rightarrow> unit io" where
  "emit ev = ([ev], Inr ())"

definition nl :: string where
  "nl = [CHR 0x0A]"

text \<open>\<^verbatim>\<open>fmt.Fprintf(os.Stderr, ...)\<close> followed by \<^verbatim>\<open>os.Exit(1)\<close>.\<close>

definition die :: "string \<Rightarrow> 'a io" where
  "die msg = ([Stderr msg], Inl (Exit 1))"

definition panic :: "'a io" where
  "panic = ([], Inl NilDeref)"

text \<open>
  A form of the prompt library is run; it fails with an error text (\<open>Inl\<close>) or stores
  the operator's answer. On failure every call site prints its own prefix, the error
  and a newline, and exits with status 1.
\<close>

definition prompt :: "event \<Rightarrow> string + 'a \<Rightarrow> string \<Rightarrow> 'a io" where
  "prompt ev answer prefix =
     (case answer of
        Inl err \<Rightarrow> ([ev, Stderr (prefix @ err @ nl)], Inl (Exit 1))
      | Inr v \<Rightarrow> ([ev], Inr v))"

text \<open>The status the process ends with: a panic of the Go run time exits with 2.\<close>

fun exitCode :: "abort + unit \<Rightarrow> nat" where
  "exitCode (Inr u) = 0"
| "exitCode (Inl (Exit n)) = n"
| "exitCode (Inl NilDeref) = 2"

fun writes :: "event list \<Rightarrow> (string \<times> bytes) list" where
  "writes [] = []"
| "writes (WriteFile path data # es) = (path, data) # writes es"
| "writes (ev # es) = writes es"

fun printed :: "event list \<Rightarrow> string list" where
  "printed [] = []"
| "printed (Stdout s # es) = s # printed es"
| "printed (ev # es) = printed es"

subsection \<open>The clock\<close>

text \<open>
  \<^verbatim>\<open>time.Now().Format(layout)\<close> for the two layouts the programs use: \<^verbatim>\<open>"20060102"\<close>
  (line 429) and \<^verbatim>\<open>time.RFC3339\<close>, that is \<^verbatim>\<open>"2006-01-02T15:04:05Z07:00"\<close> (line 758).
  Numbers are zero-padded decimals; the zone is \<open>Z\<close> for offset zero and a signed
  \<open>hh:mm\<close> otherwise. The offset is in minutes east of UTC.
\<close>

record Time =
  Year :: nat
  Month :: nat
  Day :: nat
  Hour :: nat
  Minute :: nat
  Second :: nat
  ZoneOffset :: int

definition digit :: "nat \<Rightarrow> char" where
  "digit n = ''0123456789'' ! (n mod 10)"

fun decimal :: "nat \<Rightarrow> string" where
  "decimal n = (if n < 10 then [digit n] else decimal (n div 10) @ [digit n])"

definition pad :: "nat \<Rightarrow> nat \<Rightarrow> string" where
  "pad w n = replicate (w - length (decimal n)) (CHR ''0'') @ decimal n"

definition Format_20060102 :: "Time \<Rightarrow> string" where
  "Format_20060102 t = pad 4 (Year t) @ pad 2 (Month t) @ pad 2 (Day t)"

definition Format_RFC3339 :: "Time \<Rightarrow> string" where
  "Format_RFC3339 t =
     pad 4 (Year t) @ ''-'' @ pad 2 (Month t) @ ''-'' @ pad 2 (Day t) @ ''T''
       @ pad 2 (Hour t) @ '':'' @ pad 2 (Minute t) @ '':'' @ pad 2 (Second t)
       @ (if ZoneOffset t = 0 then ''Z''
          else (if ZoneOffset t < 0 then ''-'' else ''+'')
               @ pad 2 (nat \<bar>ZoneOffset t\<bar> div 60) @ '':'' @ pad 2 (nat \<bar>ZoneOffset t\<bar> mod 60))"

subsection \<open>The environment of a run\<close>

text \<open>
  Everything a run takes from outside: the two flags, the home directory, the file
  system, the clock, the verb \<^verbatim>\<open>%q\<close>, and the outcome of each prompt (an error text, or
  the answer). \<^verbatim>\<open>WriteFileErr\<close> is the error \<^verbatim>\<open>ioutil.WriteFile\<close> returns for a path and
  data, \<open>None\<close> for success.
\<close>

record env =
  configFlag :: string
  tryFlag :: bool
  UserHomeDir :: "string + string"
  Join :: "string \<Rightarrow> string \<Rightarrow> string"
  ReadFile :: "string \<Rightarrow> string + bytes"
  WriteFileErr :: "string \<Rightarrow> bytes \<Rightarrow> string option"
  Now :: Time
  fmtQ :: "string \<Rightarrow> string"
  ansSelectContext :: "string + string"
  ansNewContext :: "string + (string \<times> string \<times> string)"
  ansUpdateServer :: "string + bool"
  ansPaste :: "string + string"
  ansSelectCluster :: "string + string"
  ansSelectPastedContext :: "string + string"
  ansSelectUser :: "string + string"

text \<open>The first program adds the YAML library (lines 90, 198 and 405).\<close>

record env1 = env +
  Unmarshal :: "bytes \<Rightarrow> string + KubeConfig"
  Marshal :: "KubeConfig \<Rightarrow> string + bytes"

text \<open>
  The second program adds \<^verbatim>\<open>clientcmd.Load\<close> and \<^verbatim>\<open>clientcmd.Write\<close>. Go leaves the
  order of a \<^verbatim>\<open>range\<close> over a map open, so the environment also gives, for the
  \<^verbatim>\<open>range\<close> statement at a source line, the order in which it visits the keys.
\<close>

record env2 = env +
  Load :: "bytes \<Rightarrow> string + api_Config"
  Write :: "api_Config \<Rightarrow> string + bytes"
  mapOrder :: "nat \<Rightarrow> string list"

definition rangeMap :: "string list \<Rightarrow> (string \<rightharpoonup> 'v) \<Rightarrow> (string \<times> 'v) list" where
  "rangeMap ks m = concat (map (\<lambda>k. case m k of None \<Rightarrow> [] | Some v \<Rightarrow> [(k, v)]) ks)"

text \<open>A key order that a \<^verbatim>\<open>range\<close> over the map \<open>m\<close> can really take.\<close>

definition enumerates :: "string list \<Rightarrow> (string \<rightharpoonup> 'v) \<Rightarrow> bool" where
  "enumerates ks m \<longleftrightarrow> distinct ks \<and> set ks = dom m"

subsection \<open>Steps shared by both programs\<close>

text \<open>Lines 72 to 81 and 486 to 495: a leading tilde is replaced by the home directory.\<close>

definition expandPath :: "'a env_scheme \<Rightarrow> string io" where
  "expandPath e =
     (let configPath = configFlag e
      in if take 1 configPath = ''~'' then
           (case UserHomeDir e of
              Inl err \<Rightarrow> die (''Error getting home directory: '' @ err @ nl)
            | Inr home \<Rightarrow> ret (Join e home (drop 1 configPath)))
         else ret configPath)"

text \<open>Lines 84 to 88 and 498 to 502.\<close>

definition readConfig :: "'a env_scheme \<Rightarrow> string \<Rightarrow> bytes io" where
  "readConfig e configPath =
     (case ReadFile e configPath of
        Inl err \<Rightarrow> die (''Error reading kubeconfig file '' @ configPath @ '': '' @ err @ nl)
      | Inr origData \<Rightarrow> ret origData)"

text \<open>Lines 411 to 419 and 735 to 743: the Change Reporter.\<close>

definition report :: "string list \<Rightarrow> unit io" where
  "report changes =
     (Stdout (''Summary of changes:'' @ nl)
        # (if length changes = 0 then [Stdout (''No changes made.'' @ nl)]
           else map (\<lambda>change. Stdout (''- '' @ change @ nl)) changes),
      Inr ())"

definition writeFile :: "'a env_scheme \<Rightarrow> string \<Rightarrow> bytes \<Rightarrow> string \<Rightarrow> unit io" where
  "writeFile e path data prefix =
     (case WriteFileErr e path data of
        Some err \<Rightarrow> ([WriteFile path data, Stderr (prefix @ err @ nl)], Inl (Exit 1))
      | None \<Rightarrow> ([WriteFile path data], Inr ()))"


subsection \<open>The first program\<close>

text \<open>Lines 89 to 93.\<close>

definition parseConfig1 :: "env1 \<Rightarrow> bytes \<Rightarrow> KubeConfig io" where
  "parseConfig1 e origData =
     (case Unmarshal e origData of
        Inl err \<Rightarrow> die (''Error parsing kubeconfig file: '' @ err @ nl)
      | Inr origCfg \<Rightarrow> ret origCfg)"

text \<open>
  The loop of lines 152 to 157: the index of the first context with the selected name.
  \<^verbatim>\<open>targetContext\<close> is the address of that element of \<^verbatim>\<open>origCfg.Contexts\<close>, a nil
  pointer when no element has the name.
\<close>

fun locate :: "string \<Rightarrow> NamedContext list \<Rightarrow> nat option" where
  "locate selectedContext [] = None"
| "locate selectedContext (ctx # ctxs) =
     (if nx_Name ctx = selectedContext then Some 0
      else map_option Suc (locate selectedContext ctxs))"

text \<open>
  Lines 95 to 162. The result is the document (with the new context appended on the
  new-context path), the index \<^verbatim>\<open>targetContext\<close> points at, and \<^verbatim>\<open>newContext\<close>.
\<close>

definition selectTarget1 :: "env1 \<Rightarrow> KubeConfig \<Rightarrow> (KubeConfig \<times> nat \<times> bool) io" where
  "selectTarget1 e origCfg =
     (let contextNames = map nx_Name (Contexts origCfg) @ [''new context'']
      in io_bind (prompt (Select ''Select a context to update'' contextNames)
                    (ansSelectContext e) ''Error selecting context: '')
          (\<lambda>selectedContext.
             if selectedContext = ''new context'' then
               io_bind (prompt (Input [''Enter new context name'', ''Enter new cluster name'',
                                       ''Enter new user name''])
                          (ansNewContext e) ''Error getting new context details: '')
                 (\<lambda>(newCtxName, newClusterName, newUserName).
                    let newCtx = \<lparr>nx_Name = newCtxName,
                                  nx_Context = \<lparr>ctx_Cluster = newClusterName,
                                                ctx_User = newUserName\<rparr>\<rparr>
                    in ret (origCfg\<lparr>Contexts := Contexts origCfg @ [newCtx]\<rparr>,
                            length (Contexts origCfg @ [newCtx]) - 1, True))
             else
               (case locate selectedContext (Contexts origCfg) of
                  None \<Rightarrow> die (''Context '' @ selectedContext @ '' not found'' @ nl)
                | Some i \<Rightarrow> ret (origCfg, i, False))))"

text \<open>Lines 164 to 178.\<close>

definition askUpdateServer1 :: "env1 \<Rightarrow> KubeConfig \<Rightarrow> nat \<Rightarrow> bool \<Rightarrow> bool io" where
  "askUpdateServer1 e origCfg ti newContext =
     (if \<not> newContext then
        prompt (Confirm (''Do you want to update the server URL for cluster ''
                           @ targetCluster1 origCfg ti @ ''?''))
          (ansUpdateServer e) ''Error getting confirmation for server update: ''
      else ret False)"

text \<open>Lines 180 to 201.\<close>

definition pasteConfig1 :: "env1 \<Rightarrow> KubeConfig io" where
  "pasteConfig1 e =
     io_bind (prompt (Text ''Paste kubeconfig file (press ctrl+d when done)'')
                (ansPaste e) ''Error reading pasted kubeconfig: '')
       (\<lambda>pastedKubeconfig.
          case Unmarshal e pastedKubeconfig of
            Inl err \<Rightarrow> die (''Error parsing pasted kubeconfig: '' @ err @ nl)
          | Inr newCfg \<Rightarrow> ret newCfg)"

text \<open>
  Line 239 assigns through \<^verbatim>\<open>targetContext\<close>: the cluster name of the element \<open>ti\<close> of
  \<^verbatim>\<open>origCfg.Contexts\<close> changes.
\<close>

definition setTargetCluster1 :: "KubeConfig \<Rightarrow> nat \<Rightarrow> string \<Rightarrow> KubeConfig" where
  "setTargetCluster1 origCfg ti name =
     (let ctx = Contexts origCfg ! ti
      in origCfg\<lparr>Contexts :=
           (Contexts origCfg)[ti := ctx\<lparr>nx_Context := (nx_Context ctx)\<lparr>ctx_Cluster := name\<rparr>\<rparr>]\<rparr>)"

text \<open>Lines 203 to 247: the pasted cluster, by name or by the operator's choice.\<close>

definition resolveCluster1 ::
  "env1 \<Rightarrow> KubeConfig \<Rightarrow> nat \<Rightarrow> KubeConfig \<Rightarrow> (KubeConfig \<times> NamedCluster) io" where
  "resolveCluster1 e origCfg ti newCfg =
     (let targetClusterName = targetCluster1 origCfg ti
      in case find (\<lambda>c. nc_Name c = targetClusterName) (Clusters newCfg) of
           Some c \<Rightarrow> ret (origCfg, c)
         | None \<Rightarrow>
             io_bind (prompt (Select (''The pasted kubeconfig does not contain a cluster named ''
                                        @ targetClusterName
                                        @ ''. Select a cluster from the pasted file'')
                                (map nc_Name (Clusters newCfg)))
                        (ansSelectCluster e) ''Error selecting cluster from pasted kubeconfig: '')
               (\<lambda>selectedPastedClusterName.
                  case find (\<lambda>c. nc_Name c = selectedPastedClusterName) (Clusters newCfg) of
                    Some c \<Rightarrow> ret (setTargetCluster1 origCfg ti selectedPastedClusterName, c)
                  | None \<Rightarrow> die (''Error: selected cluster not found in pasted kubeconfig''
                                   @ nl)))"

text \<open>
  Lines 249 to 288: a pasted context that uses the pasted cluster. The result is the
  pointer \<^verbatim>\<open>pastedContext\<close>, which the loop of lines 282 to 287 may leave nil.
\<close>

definition resolveContext1 ::
  "env1 \<Rightarrow> KubeConfig \<Rightarrow> NamedCluster \<Rightarrow> NamedContext option io" where
  "resolveContext1 e newCfg pastedCluster =
     (case find (\<lambda>ctx. ctx_Cluster (nx_Context ctx) = nc_Name pastedCluster)
             (Contexts newCfg) of
        Some ctx \<Rightarrow> ret (Some ctx)
      | None \<Rightarrow>
          let options = map nx_Name
                          (filter (\<lambda>ctx. ctx_Cluster (nx_Context ctx) = nc_Name pastedCluster)
                             (Contexts newCfg))
          in if length options = 0 then
               die (''Error: no context in pasted kubeconfig references cluster ''
                      @ fmtQ e (nc_Name pastedCluster) @ nl)
             else
               io_bind (prompt (Select (''Select a context from pasted kubeconfig for cluster ''
                                          @ fmtQ e (nc_Name pastedCluster)) options)
                          (ansSelectPastedContext e)
                          ''Error selecting context from pasted kubeconfig: '')
                 (\<lambda>selectedPastedContextName.
                    ret (find (\<lambda>ctx. nx_Name ctx = selectedPastedContextName)
                           (Contexts newCfg))))"

text \<open>Lines 290 to 328; line 291 dereferences \<^verbatim>\<open>pastedContext\<close>.\<close>

definition resolveUser1 :: "env1 \<Rightarrow> KubeConfig \<Rightarrow> NamedContext option \<Rightarrow> NamedUser io" where
  "resolveUser1 e newCfg pastedContext =
     (case pastedContext of
        None \<Rightarrow> panic
      | Some pctx \<Rightarrow>
          let targetPastedUserName = ctx_User (nx_Context pctx)
          in (case find (\<lambda>u. nu_Name u = targetPastedUserName) (Users newCfg) of
               Some u \<Rightarrow> ret u
             | None \<Rightarrow>
                 io_bind (prompt (Select ''Select a user from the pasted kubeconfig''
                                    (map nu_Name (Users newCfg)))
                            (ansSelectUser e) ''Error selecting user from pasted kubeconfig: '')
                   (\<lambda>selectedPastedUserName.
                      (case find (\<lambda>u. nu_Name u = selectedPastedUserName) (Users newCfg) of
                         Some u \<Rightarrow> ret u
                       | None \<Rightarrow> die (''Error: selected user not found in pasted kubeconfig''
                                        @ nl)))))"

text \<open>Lines 404 to 409.\<close>

definition marshal1 :: "env1 \<Rightarrow> KubeConfig \<Rightarrow> bytes io" where
  "marshal1 e origCfg =
     (case Marshal e origCfg of
        Inl err \<Rightarrow> die (''Error marshaling updated kubeconfig: '' @ err @ nl)
      | Inr outData \<Rightarrow> ret outData)"

text \<open>Lines 421 to 441: the Writer.\<close>

definition writer1 :: "env1 \<Rightarrow> string \<Rightarrow> bytes \<Rightarrow> bytes \<Rightarrow> unit io" where
  "writer1 e configPath origData outData =
     (if tryFlag e then
        ([Stdout (nl @ ''---- Updated kubeconfig (try mode) ----'' @ nl),
          Stdout (outData @ nl)], Inr ())
      else
        let backupPath = configPath @ ''.backup.'' @ Format_20060102 (Now e)
        in io_bind (writeFile e backupPath origData ''Error writing backup file: '') (\<lambda>_.
           io_bind (emit (Stdout (''Backup of original kubeconfig saved as ''
                                    @ backupPath @ nl))) (\<lambda>_.
           io_bind (writeFile e configPath outData ''Error writing updated kubeconfig: '') (\<lambda>_.
           emit (Stdout (''Kubeconfig updated successfully in '' @ configPath @ nl))))))"

text \<open>
  Lines 89 to 402: from the parsed file to the merged document and its change entries.
\<close>

definition prepare1 :: "env1 \<Rightarrow> bytes \<Rightarrow> (string list \<times> KubeConfig) io" where
  "prepare1 e origData =
     io_bind (parseConfig1 e origData) (\<lambda>origCfg.
     io_bind (selectTarget1 e origCfg) (\<lambda>(origCfg, ti, newContext).
     io_bind (askUpdateServer1 e origCfg ti newContext) (\<lambda>updateServer.
     io_bind (pasteConfig1 e) (\<lambda>newCfg.
     io_bind (resolveCluster1 e origCfg ti newCfg) (\<lambda>(origCfg, pastedCluster).
     io_bind (resolveContext1 e newCfg pastedCluster) (\<lambda>pastedContext.
     io_bind (resolveUser1 e newCfg pastedContext) (\<lambda>pastedUser.
       (case merge1 (fmtQ e) newContext updateServer ti pastedCluster pastedUser origCfg of
          (origCfg, changes) \<Rightarrow> ret (changes, origCfg)))))))))"

text \<open>
  \<^verbatim>\<open>main\<close> of the first program, lines 66 to 442: the merged document is serialized
  before the report is printed.
\<close>

definition main1 :: "env1 \<Rightarrow> unit io" where
  "main1 e =
     io_bind (expandPath e) (\<lambda>configPath.
     io_bind (readConfig e configPath) (\<lambda>origData.
     io_bind (prepare1 e origData) (\<lambda>(changes, origCfg).
     io_bind (marshal1 e origCfg) (\<lambda>outData.
     io_bind (report changes) (\<lambda>_.
       writer1 e configPath origData outData)))))"

subsection \<open>The second program\<close>

text \<open>Lines 504 to 509.\<close>

definition parseConfig2 :: "env2 \<Rightarrow> bytes \<Rightarrow> api_Config io" where
  "parseConfig2 e origData =
     (case Load e origData of
        Inl err \<Rightarrow> die (''Error parsing kubeconfig: '' @ err @ nl)
      | Inr origCfg \<Rightarrow> ret origCfg)"

text \<open>
  Lines 511 to 571. \<^verbatim>\<open>targetContext\<close> is the pointer stored in \<^verbatim>\<open>origCfg.Contexts\<close>
  under \<^verbatim>\<open>targetContextName\<close>; no later statement stores another pointer there, so the
  name stands for the pointer. The result is the document, that name and
  \<^verbatim>\<open>newContext\<close>.
\<close>

definition selectTarget2 :: "env2 \<Rightarrow> api_Config \<Rightarrow> (api_Config \<times> string \<times> bool) io" where
  "selectTarget2 e origCfg =
     (let contextNames = map fst (rangeMap (mapOrder e 513) (cfg_Contexts origCfg))
                           @ [''new context'']
      in io_bind (prompt (Select ''Select a context to update'' contextNames)
                    (ansSelectContext e) ''Error selecting context: '')
          (\<lambda>selectedContext.
             if selectedContext = ''new context'' then
               io_bind (prompt (Input [''Enter new context name'', ''Enter new cluster name'',
                                       ''Enter new user name''])
                          (ansNewContext e) ''Error getting new context details: '')
                 (\<lambda>(newCtxName, newClusterName, newUserName).
                    ret (origCfg\<lparr>cfg_Contexts := (cfg_Contexts origCfg)
                             (newCtxName \<mapsto> \<lparr>ac_Cluster = newClusterName,
                                              ac_AuthInfo = newUserName\<rparr>)\<rparr>,
                         newCtxName, True))
             else
               (case cfg_Contexts origCfg selectedContext of
                  None \<Rightarrow> die (''Context '' @ selectedContext @ '' not found'' @ nl)
                | Some targetContext \<Rightarrow> ret (origCfg, selectedContext, False))))"

text \<open>A read through the pointer \<^verbatim>\<open>targetContext\<close>.\<close>

definition targetContext2 :: "api_Config \<Rightarrow> string \<Rightarrow> api_Context io" where
  "targetContext2 origCfg targetContextName =
     (case cfg_Contexts origCfg targetContextName of
        None \<Rightarrow> panic
      | Some targetContext \<Rightarrow> ret targetContext)"

text \<open>Lines 573 to 586.\<close>

definition askUpdateServer2 :: "env2 \<Rightarrow> api_Config \<Rightarrow> string \<Rightarrow> bool \<Rightarrow> bool io" where
  "askUpdateServer2 e origCfg targetContextName newContext =
     (if \<not> newContext then
        io_bind (targetContext2 origCfg targetContextName) (\<lambda>targetContext.
          prompt (Confirm (''Update server URL for cluster '' @ ac_Cluster targetContext @ ''?''))
            (ansUpdateServer e) ''Error getting server update confirmation: '')
      else ret False)"

text \<open>Lines 588 to 607.\<close>

definition pasteConfig2 :: "env2 \<Rightarrow> api_Config io" where
  "pasteConfig2 e =
     io_bind (prompt (Text ''Paste kubeconfig (ctrl+d when done)'')
                (ansPaste e) ''Error reading pasted kubeconfig: '')
       (\<lambda>pastedKubeconfig.
          case Load e pastedKubeconfig of
            Inl err \<Rightarrow> die (''Error parsing pasted kubeconfig: '' @ err @ nl)
          | Inr newCfg \<Rightarrow> ret newCfg)"

text \<open>
  Lines 609 to 632. The result is the document (line 630 renames the target context's
  cluster), \<^verbatim>\<open>targetClusterName\<close> and the pointer \<^verbatim>\<open>pastedCluster\<close>, nil when the
  selected name is no key of the pasted clusters.
\<close>

definition resolveCluster2 ::
  "env2 \<Rightarrow> api_Config \<Rightarrow> string \<Rightarrow> api_Config
     \<Rightarrow> (api_Config \<times> string \<times> api_Cluster option) io" where
  "resolveCluster2 e origCfg targetContextName newCfg =
     io_bind (targetContext2 origCfg targetContextName) (\<lambda>targetContext.
       let targetClusterName = ac_Cluster targetContext
       in (case cfg_Clusters newCfg targetClusterName of
             Some pastedCluster \<Rightarrow> ret (origCfg, targetClusterName, Some pastedCluster)
           | None \<Rightarrow>
               io_bind (prompt (Select ''Select cluster from pasted config''
                                  (map fst (rangeMap (mapOrder e 613) (cfg_Clusters newCfg))))
                          (ansSelectCluster e) ''Error selecting cluster: '')
                 (\<lambda>selectedCluster.
                    ret (origCfg\<lparr>cfg_Contexts := (cfg_Contexts origCfg)
                             (targetContextName \<mapsto> targetContext\<lparr>ac_Cluster := selectedCluster\<rparr>)\<rparr>,
                         selectedCluster, cfg_Clusters newCfg selectedCluster))))"

text \<open>
  Lines 634 to 665. The loop of line 635 takes the first context, in the order of that
  \<^verbatim>\<open>range\<close>, whose cluster is \<^verbatim>\<open>targetClusterName\<close>; \<^verbatim>\<open>pastedContextName\<close> stays empty
  when there is none. The result is the pointer \<^verbatim>\<open>pastedContext\<close> of line 665.
\<close>

definition resolveContext2 :: "env2 \<Rightarrow> api_Config \<Rightarrow> string \<Rightarrow> api_Context option io" where
  "resolveContext2 e newCfg targetClusterName =
     (let pastedContextName =
            (case find (\<lambda>(name, ctx). ac_Cluster ctx = targetClusterName)
                    (rangeMap (mapOrder e 635) (cfg_Contexts newCfg)) of
               Some (name, ctx) \<Rightarrow> name
             | None \<Rightarrow> [])
      in if pastedContextName = [] then
           let ctxOptions = map fst
                 (filter (\<lambda>(name, ctx). ac_Cluster ctx = targetClusterName)
                    (rangeMap (mapOrder e 643) (cfg_Contexts newCfg)))
           in if length ctxOptions = 0 then
                die (''No contexts for cluster '' @ targetClusterName @ '' in pasted config''
                       @ nl)
              else
                io_bind (prompt (Select ''Select context from pasted config'' ctxOptions)
                           (ansSelectPastedContext e) ''Error selecting context: '')
                  (\<lambda>pastedContextName. ret (cfg_Contexts newCfg pastedContextName))
         else ret (cfg_Contexts newCfg pastedContextName))"

text \<open>Lines 667 to 687; line 667 dereferences \<^verbatim>\<open>pastedContext\<close>.\<close>

definition resolveUser2 ::
  "env2 \<Rightarrow> api_Config \<Rightarrow> api_Context option \<Rightarrow> api_AuthInfo option io" where
  "resolveUser2 e newCfg pastedContext =
     (case pastedContext of
        None \<Rightarrow> panic
      | Some pctx \<Rightarrow>
          (case cfg_AuthInfos newCfg (ac_AuthInfo pctx) of
             Some pastedUser \<Rightarrow> ret (Some pastedUser)
           | None \<Rightarrow>
               io_bind (prompt (Select ''Select user from pasted config''
                                  (map fst (rangeMap (mapOrder e 670) (cfg_AuthInfos newCfg))))
                          (ansSelectUser e) ''Error selecting user: '')
                 (\<lambda>selectedUser. ret (cfg_AuthInfos newCfg selectedUser))))"

text \<open>Lines 745 to 775: the Writer.\<close>

definition writer2 :: "env2 \<Rightarrow> string \<Rightarrow> bytes \<Rightarrow> api_Config \<Rightarrow> unit io" where
  "writer2 e configPath origData origCfg =
     (if tryFlag e then
        (case Write e origCfg of
           Inl err \<Rightarrow> die (''Error marshaling config: '' @ err @ nl)
         | Inr outData \<Rightarrow>
             ([Stdout (nl @ ''---- Updated kubeconfig (try mode) ----'' @ nl),
               Stdout (outData @ nl)], Inr ()))
      else
        let backupPath = configPath @ ''.backup.'' @ Format_RFC3339 (Now e)
        in io_bind (writeFile e backupPath origData ''Error creating backup: '') (\<lambda>_.
           io_bind (emit (Stdout (''Backup saved to '' @ backupPath @ nl))) (\<lambda>_.
             (case Write e origCfg of
                Inl err \<Rightarrow> die (''Error marshaling updated config: '' @ err @ nl)
              | Inr outData \<Rightarrow>
                  io_bind (writeFile e configPath outData ''Error writing updated config: '')
                    (\<lambda>_. emit (Stdout (''Successfully updated '' @ configPath @ nl)))))))"

text \<open>Lines 504 to 733: from the parsed file to the merged document and its changes.\<close>

definition prepare2 :: "env2 \<Rightarrow> bytes \<Rightarrow> (string list \<times> api_Config) io" where
  "prepare2 e origData =
     io_bind (parseConfig2 e origData) (\<lambda>origCfg.
     io_bind (selectTarget2 e origCfg) (\<lambda>(origCfg, targetContextName, newContext).
     io_bind (askUpdateServer2 e origCfg targetContextName newContext) (\<lambda>updateServer.
     io_bind (pasteConfig2 e) (\<lambda>newCfg.
     io_bind (resolveCluster2 e origCfg targetContextName newCfg)
       (\<lambda>(origCfg, targetClusterName, pastedCluster).
     io_bind (resolveContext2 e newCfg targetClusterName) (\<lambda>pastedContext.
     io_bind (resolveUser2 e newCfg pastedContext) (\<lambda>pastedUser.
       (case merge2 (fmtQ e) newContext updateServer targetContextName targetClusterName
               pastedCluster pastedUser origCfg of
          Inl a \<Rightarrow> ([], Inl a)
        | Inr (origCfg, changes) \<Rightarrow> ret (changes, origCfg)))))))))"

text \<open>\<^verbatim>\<open>main\<close> of the second program, lines 481 to 776.\<close>

definition main2 :: "env2 \<Rightarrow> unit io" where
  "main2 e =
     io_bind (expandPath e) (\<lambda>configPath.
     io_bind (readConfig e configPath) (\<lambda>origData.
     io_bind (prepare2 e origData) (\<lambda>(changes, origCfg).
     io_bind (report changes) (\<lambda>_.
       writer2 e configPath origData origCfg))))"

subsection \<open>Example documents and environments\<close>

text \<open>
  A kubeconfig on disk and a pasted one, after the scenario of the specification, and
  an environment for each program. The on-disk document also has a context that is
  literally named \<open>new context\<close>. Quoting a plain name puts it between double quotes.
\<close>

definition exQuote :: "string \<Rightarrow> string" where
  "exQuote s = [CHR 0x22] @ s @ [CHR 0x22]"

definition exNow :: Time where
  "exNow = \<lparr>Year = 2025, Month = 1, Day = 2, Hour = 3, Minute = 4, Second = 5, ZoneOffset = 0\<rparr>"

definition exDisk1 :: KubeConfig where
  "exDisk1 =
     \<lparr>APIVersion = ''v1'', Kind = ''Config'',
      Clusters =
        [\<lparr>nc_Name = ''prod-cluster'',
          nc_Cluster = \<lparr>Server = ''https://old.example:6443'', CertificateAuthorityData = []\<rparr>\<rparr>,
         \<lparr>nc_Name = ''dev-cluster'',
          nc_Cluster = \<lparr>Server = ''https://dev.example:6443'',
                        CertificateAuthorityData = ''REVWQ0E=''\<rparr>\<rparr>],
      Contexts =
        [\<lparr>nx_Name = ''prod'',
          nx_Context = \<lparr>ctx_Cluster = ''prod-cluster'', ctx_User = ''prod-user''\<rparr>\<rparr>,
         \<lparr>nx_Name = ''new context'',
          nx_Context = \<lparr>ctx_Cluster = ''dev-cluster'', ctx_User = ''dev-user''\<rparr>\<rparr>],
      Users =
        [\<lparr>nu_Name = ''prod-user'',
          nu_User = \<lparr>Token = ''tok-old-aaaa'', ClientCertificateData = [],
                     ClientKeyData = []\<rparr>\<rparr>,
         \<lparr>nu_Name = ''dev-user'',
          nu_User = \<lparr>Token = ''tok-dev'', ClientCertificateData = [], ClientKeyData = []\<rparr>\<rparr>],
      CurrentContext = ''prod''\<rparr>"

definition exPastedCluster1 :: NamedCluster where
  "exPastedCluster1 =
     \<lparr>nc_Name = ''prod-cluster'',
      nc_Cluster = \<lparr>Server = ''https://new.example:6443'',
                    CertificateAuthorityData = ''TkVXQ0FEQVRBMTIzNDU2Nzg5''\<rparr>\<rparr>"

definition exPastedUser1 :: NamedUser where
  "exPastedUser1 =
     \<lparr>nu_Name = ''prod-user2'',
      nu_User = \<lparr>Token = ''tok-new-bbbb'', ClientCertificateData = [], ClientKeyData = []\<rparr>\<rparr>"

definition exPasted1 :: KubeConfig where
  "exPasted1 =
     \<lparr>APIVersion = ''v1'', Kind = ''Config'',
      Clusters = [exPastedCluster1],
      Contexts =
        [\<lparr>nx_Name = ''prod-paste'',
          nx_Context = \<lparr>ctx_Cluster = ''prod-cluster'', ctx_User = ''prod-user2''\<rparr>\<rparr>],
      Users = [exPastedUser1],
      CurrentContext = ''prod-paste''\<rparr>"

definition exMarshal1 :: "KubeConfig \<Rightarrow> string + bytes" where
  "exMarshal1 cfg =
     Inr (concat (map (\<lambda>c. nc_Name c @ '': '' @ Server (nc_Cluster c) @ nl) (Clusters cfg)))"

definition exEnv1 :: env1 where
  "exEnv1 =
     \<lparr>configFlag = ''/k/config'', tryFlag = False,
      UserHomeDir = Inr ''/home/op'',
      Join = (\<lambda>a b. a @ b),
      ReadFile = (\<lambda>p. if p = ''/k/config'' then Inr ''disk'' else Inl ''no such file''),
      WriteFileErr = (\<lambda>p d. None),
      Now = exNow,
      fmtQ = exQuote,
      ansSelectContext = Inr ''prod'',
      ansNewContext = Inr (''stage'', ''stage-cluster'', ''stage-user''),
      ansUpdateServer = Inr True,
      ansPaste = Inr ''pasted'',
      ansSelectCluster = Inr ''prod-cluster'',
      ansSelectPastedContext = Inr ''prod-paste'',
      ansSelectUser = Inr ''prod-user2'',
      Unmarshal = (\<lambda>d. if d = ''disk'' then Inr exDisk1
                        else if d = ''pasted'' then Inr exPasted1
                        else Inl ''yaml: cannot unmarshal''),
      Marshal = exMarshal1\<rparr>"

definition exPastedCluster2 :: api_Cluster where
  "exPastedCluster2 =
     \<lparr>api_Server = ''https://new.example:6443'',
      api_CertificateAuthorityData = ''NEWCADATA123''\<rparr>"

definition exPastedUser2 :: api_AuthInfo where
  "exPastedUser2 =
     \<lparr>api_Token = ''tok-new-bbbb'', api_ClientCertificateData = [], api_ClientKeyData = []\<rparr>"

definition exDisk2 :: api_Config where
  "exDisk2 =
     \<lparr>cfg_Clusters =
        [''prod-cluster'' \<mapsto> \<lparr>api_Server = ''https://old.example:6443'',
                             api_CertificateAuthorityData = []\<rparr>,
         ''dev-cluster'' \<mapsto> \<lparr>api_Server = ''https://dev.example:6443'',
                            api_CertificateAuthorityData = ''DEVCA''\<rparr>],
      cfg_AuthInfos =
        [''prod-user'' \<mapsto> \<lparr>api_Token = ''tok-old-aaaa'', api_ClientCertificateData = [],
                          api_ClientKeyData = []\<rparr>,
         ''dev-user'' \<mapsto> \<lparr>api_Token = ''tok-dev'', api_ClientCertificateData = [],
                         api_ClientKeyData = []\<rparr>],
      cfg_Contexts =
        [''prod'' \<mapsto> \<lparr>ac_Cluster = ''prod-cluster'', ac_AuthInfo = ''prod-user''\<rparr>,
         ''new context'' \<mapsto> \<lparr>ac_Cluster = ''dev-cluster'', ac_AuthInfo = ''dev-user''\<rparr>],
      cfg_CurrentContext = ''prod''\<rparr>"

definition exPasted2 :: api_Config where
  "exPasted2 =
     \<lparr>cfg_Clusters = [''prod-cluster'' \<mapsto> exPastedCluster2],
      cfg_AuthInfos = [''prod-user2'' \<mapsto> exPastedUser2],
      cfg_Contexts =
        [''prod-paste'' \<mapsto> \<lparr>ac_Cluster = ''prod-cluster'', ac_AuthInfo = ''prod-user2''\<rparr>],
      cfg_CurrentContext = ''prod-paste''\<rparr>"

definition exWrite2 :: "api_Config \<Rightarrow> string + bytes" where
  "exWrite2 cfg =
     Inr (concat (map (\<lambda>n. case cfg_Clusters cfg n of
                               None \<Rightarrow> []
                             | Some c \<Rightarrow> n @ '': '' @ api_Server c @ nl)
                    [''prod-cluster'', ''dev-cluster'']))"

definition exEnv2 :: env2 where
  "exEnv2 =
     \<lparr>configFlag = ''/k/config'', tryFlag = False,
      UserHomeDir = Inr ''/home/op'',
      Join = (\<lambda>a b. a @ b),
      ReadFile = (\<lambda>p. if p = ''/k/config'' then Inr ''disk'' else Inl ''no such file''),
      WriteFileErr = (\<lambda>p d. None),
      Now = exNow,
      fmtQ = exQuote,
      ansSelectContext = Inr ''prod'',
      ansNewContext = Inr (''stage'', ''stage-cluster'', ''stage-user''),
      ansUpdateServer = Inr True,
      ansPaste = Inr ''pasted'',
      ansSelectCluster = Inr ''prod-cluster'',
      ansSelectPastedContext = Inr ''prod-paste'',
      ansSelectUser = Inr ''prod-user2'',
      Load = (\<lambda>d. if d = ''disk'' then Inr exDisk2
                   else if d = ''pasted'' then Inr exPasted2
                   else Inl ''yaml: cannot unmarshal''),
      Write = exWrite2,
      mapOrder = (\<lambda>line. if line = 513 then [''prod'', ''new context'']
                         else if line = 613 then [''prod-cluster'']
                         else if line = 670 then [''prod-user2'']
                         else [''prod-paste''])\<rparr>"

text \<open>
  The on-disk documents after the new-context path has added the context \<open>stage\<close>
  (lines 141 to 149 and 558 to 563); its cluster and user have no entry yet.
\<close>

definition exStage1 :: KubeConfig where
  "exStage1 =
     exDisk1\<lparr>Contexts := Contexts exDisk1
       @ [\<lparr>nx_Name = ''stage'',
           nx_Context = \<lparr>ctx_Cluster = ''stage-cluster'', ctx_User = ''stage-user''\<rparr>\<rparr>]\<rparr>"

definition exStage2 :: api_Config where
  "exStage2 =
     exDisk2\<lparr>cfg_Contexts := (cfg_Contexts exDisk2)
       (''stage'' \<mapsto> \<lparr>ac_Cluster = ''stage-cluster'', ac_AuthInfo = ''stage-user''\<rparr>)\<rparr>"

text \<open>
  Pasted documents in which no context uses the cluster \<open>prod-cluster\<close>, and the
  environments in which they are pasted.
\<close>

definition exOrphan1 :: KubeConfig where
  "exOrphan1 =
     exPasted1\<lparr>Contexts :=
       [\<lparr>nx_Name = ''dev-paste'',
         nx_Context = \<lparr>ctx_Cluster = ''dev-cluster'', ctx_User = ''prod-user2''\<rparr>\<rparr>]\<rparr>"

definition exOrphan2 :: api_Config where
  "exOrphan2 =
     exPasted2\<lparr>cfg_Contexts :=
       [''dev-paste'' \<mapsto> \<lparr>ac_Cluster = ''dev-cluster'', ac_AuthInfo = ''prod-user2''\<rparr>]\<rparr>"

definition exOrphanEnv1 :: env1 where
  "exOrphanEnv1 =
     exEnv1\<lparr>Unmarshal := (\<lambda>d. if d = ''disk'' then Inr exDisk1 else Inr exOrphan1)\<rparr>"

definition exOrphanEnv2 :: env2 where
  "exOrphanEnv2 =
     exEnv2\<lparr>Load := (\<lambda>d. if d = ''disk'' then Inr exDisk2 else Inr exOrphan2)\<rparr>"

text \<open>The environments in which the operator picks \<open>new context\<close> in the first list.\<close>

definition exNewEnv1 :: env1 where
  "exNewEnv1 = exEnv1\<lparr>ansSelectContext := Inr ''new context''\<rparr>"

definition exNewEnv2 :: env2 where
  "exNewEnv2 = exEnv2\<lparr>ansSelectContext := Inr ''new context''\<rparr>"

text \<open>
  The example environments with the flag \<^verbatim>\<open>--try\<close>, and the documents the merge makes of
  the on-disk examples when the target context is \<open>prod\<close> and the server is updated.
\<close>

definition exTryEnv1 :: env1 where
  "exTryEnv1 = exEnv1\<lparr>tryFlag := True\<rparr>"

definition exTryEnv2 :: env2 where
  "exTryEnv2 = exEnv2\<lparr>tryFlag := True\<rparr>"

definition exMerged1 :: KubeConfig where
  "exMerged1 =
     exDisk1\<lparr>Clusters :=
               [\<lparr>nc_Name = ''prod-cluster'', nc_Cluster = nc_Cluster exPastedCluster1\<rparr>,
                \<lparr>nc_Name = ''dev-cluster'',
                 nc_Cluster = \<lparr>Server = ''https://dev.example:6443'',
                               CertificateAuthorityData = ''REVWQ0E=''\<rparr>\<rparr>],
             Users :=
               [\<lparr>nu_Name = ''prod-user'', nu_User = nu_User exPastedUser1\<rparr>,
                \<lparr>nu_Name = ''dev-user'',
                 nu_User = \<lparr>Token = ''tok-dev'', ClientCertificateData = [],
                            ClientKeyData = []\<rparr>\<rparr>]\<rparr>"

definition exMerged2 :: api_Config where
  "exMerged2 =
     exDisk2\<lparr>cfg_Clusters := (cfg_Clusters exDisk2)(''prod-cluster'' \<mapsto> exPastedCluster2),
             cfg_AuthInfos := (cfg_AuthInfos exDisk2)(''prod-user'' \<mapsto> exPastedUser2)\<rparr>"





section \<open>Properties\<close>

subsection \<open>The merge: what it leaves alone, and running it twice\<close>

lemma clusterBody1_name: "nc_Name (fst (clusterBody1 q upd p c)) = nc_Name c"
  by (simp add: clusterBody1_def Let_def)

lemma userBody1_name: "nu_Name (fst (userBody1 q p u)) = nu_Name u"
  by (simp add: userBody1_def Let_def)

lemma clusterLoop1_None: "clusterLoop1 q upd tc p cs = None \<longleftrightarrow> tc \<notin> nc_Name ` set cs"
  by (induction cs) (auto split: prod.splits)

lemma userLoop1_None: "userLoop1 q tu p us = None \<longleftrightarrow> tu \<notin> nu_Name ` set us"
  by (induction us) (auto split: prod.splits)

lemma clusterLoop1_frame:
  "clusterLoop1 q upd tc p cs = Some (cs', ch) \<Longrightarrow>
     filter (\<lambda>c. nc_Name c \<noteq> tc) cs' = filter (\<lambda>c. nc_Name c \<noteq> tc) cs"
proof (induction cs arbitrary: cs' ch)
  case Nil
  then show ?case by simp
next
  case (Cons c cs)
  show ?case
  proof (cases "nc_Name c = tc")
    case True
    with Cons.prems show ?thesis
      using clusterBody1_name [of q upd p c] by (auto split: prod.splits)
  next
    case False
    with Cons.prems obtain cs0 where "clusterLoop1 q upd tc p cs = Some (cs0, ch)" "cs' = c # cs0"
      by auto
    with Cons.IH False show ?thesis by simp
  qed
qed

lemma userLoop1_frame:
  "userLoop1 q tu p us = Some (us', ch) \<Longrightarrow>
     filter (\<lambda>u. nu_Name u \<noteq> tu) us' = filter (\<lambda>u. nu_Name u \<noteq> tu) us"
proof (induction us arbitrary: us' ch)
  case Nil
  then show ?case by simp
next
  case (Cons u us)
  show ?case
  proof (cases "nu_Name u = tu")
    case True
    with Cons.prems show ?thesis
      using userBody1_name [of q p u] by (auto split: prod.splits)
  next
    case False
    with Cons.prems obtain us0 where "userLoop1 q tu p us = Some (us0, ch)" "us' = u # us0"
      by auto
    with Cons.IH False show ?thesis by simp
  qed
qed

lemma updateCluster1_frame:
  "updateCluster1 q nc us tc pc cfg = (cfg', ch) \<Longrightarrow>
     filter (\<lambda>c. nc_Name c \<noteq> tc) (Clusters cfg') = filter (\<lambda>c. nc_Name c \<noteq> tc) (Clusters cfg)
     \<and> Users cfg' = Users cfg \<and> Contexts cfg' = Contexts cfg
     \<and> CurrentContext cfg' = CurrentContext cfg \<and> APIVersion cfg' = APIVersion cfg
     \<and> Kind cfg' = Kind cfg"
  by (auto simp: updateCluster1_def split: option.splits dest: clusterLoop1_frame)

lemma updateUser1_frame:
  "updateUser1 q tu pu cfg = (cfg', ch) \<Longrightarrow>
     filter (\<lambda>u. nu_Name u \<noteq> tu) (Users cfg') = filter (\<lambda>u. nu_Name u \<noteq> tu) (Users cfg)
     \<and> Clusters cfg' = Clusters cfg \<and> Contexts cfg' = Contexts cfg
     \<and> CurrentContext cfg' = CurrentContext cfg \<and> APIVersion cfg' = APIVersion cfg
     \<and> Kind cfg' = Kind cfg"
  by (auto simp: updateUser1_def split: option.splits dest: userLoop1_frame)

lemma merge1_frame:
  assumes "merge1 q nc us ti pc pu cfg = (cfg', ch)"
  shows "filter (\<lambda>c. nc_Name c \<noteq> targetCluster1 cfg ti) (Clusters cfg')
           = filter (\<lambda>c. nc_Name c \<noteq> targetCluster1 cfg ti) (Clusters cfg)"
    and "filter (\<lambda>u. nu_Name u \<noteq> targetUser1 cfg ti) (Users cfg')
           = filter (\<lambda>u. nu_Name u \<noteq> targetUser1 cfg ti) (Users cfg)"
    and "Contexts cfg' = Contexts cfg"
    and "CurrentContext cfg' = CurrentContext cfg"
proof -
  obtain cfg1 ch1 where a: "updateCluster1 q nc us (targetCluster1 cfg ti) pc cfg = (cfg1, ch1)"
    by (cases "updateCluster1 q nc us (targetCluster1 cfg ti) pc cfg")
  obtain cfg2 ch2 where b: "updateUser1 q (targetUser1 cfg1 ti) pu cfg1 = (cfg2, ch2)"
    by (cases "updateUser1 q (targetUser1 cfg1 ti) pu cfg1")
  from assms a b have c: "cfg' = cfg2" by (simp add: merge1_def)
  note fa = updateCluster1_frame [OF a] and fb = updateUser1_frame [OF b]
  have tu: "targetUser1 cfg1 ti = targetUser1 cfg ti"
    using fa by (simp add: targetUser1_def)
  show "filter (\<lambda>c. nc_Name c \<noteq> targetCluster1 cfg ti) (Clusters cfg')
           = filter (\<lambda>c. nc_Name c \<noteq> targetCluster1 cfg ti) (Clusters cfg)"
    using fa fb c by simp
  show "filter (\<lambda>u. nu_Name u \<noteq> targetUser1 cfg ti) (Users cfg')
           = filter (\<lambda>u. nu_Name u \<noteq> targetUser1 cfg ti) (Users cfg)"
    using fa fb c tu by simp
  show "Contexts cfg' = Contexts cfg" using fa fb c by simp
  show "CurrentContext cfg' = CurrentContext cfg" using fa fb c by simp
qed

lemma updateCluster2_frame:
  "updateCluster2 q nc us tcn pc cfg = Inr (cfg', ch) \<Longrightarrow>
     (\<forall>n. n \<noteq> tcn \<longrightarrow> cfg_Clusters cfg' n = cfg_Clusters cfg n)
     \<and> cfg_AuthInfos cfg' = cfg_AuthInfos cfg \<and> cfg_Contexts cfg' = cfg_Contexts cfg
     \<and> cfg_CurrentContext cfg' = cfg_CurrentContext cfg"
  by (auto simp: updateCluster2_def Let_def split: option.splits)

lemma updateUser2_frame:
  "updateUser2 q tun pu cfg = Inr (cfg', ch) \<Longrightarrow>
     (\<forall>n. n \<noteq> tun \<longrightarrow> cfg_AuthInfos cfg' n = cfg_AuthInfos cfg n)
     \<and> cfg_Clusters cfg' = cfg_Clusters cfg \<and> cfg_Contexts cfg' = cfg_Contexts cfg
     \<and> cfg_CurrentContext cfg' = cfg_CurrentContext cfg"
  by (auto simp: updateUser2_def Let_def split: option.splits)

lemma merge2_Inr:
  "merge2 q nc us tname tcn pc pu cfg = Inr (cfg', ch) \<Longrightarrow>
    \<exists>cfg1 ch1 tctx ch2. updateCluster2 q nc us tcn pc cfg = Inr (cfg1, ch1)
      \<and> cfg_Contexts cfg1 tname = Some tctx
      \<and> updateUser2 q (ac_AuthInfo tctx) pu cfg1 = Inr (cfg', ch2) \<and> ch = ch1 @ ch2"
  by (auto simp: merge2_def split: sum.splits option.splits)

lemma merge2_frame:
  assumes "merge2 q nc us tname tcn pc pu cfg = Inr (cfg', ch)"
      and "cfg_Contexts cfg tname = Some tctx"
  shows "\<forall>n. n \<noteq> tcn \<longrightarrow> cfg_Clusters cfg' n = cfg_Clusters cfg n"
    and "\<forall>n. n \<noteq> ac_AuthInfo tctx \<longrightarrow> cfg_AuthInfos cfg' n = cfg_AuthInfos cfg n"
    and "cfg_Contexts cfg' = cfg_Contexts cfg"
    and "cfg_CurrentContext cfg' = cfg_CurrentContext cfg"
proof -
  from merge2_Inr [OF assms(1)] obtain cfg1 ch1 tctx' ch2 where
    a: "updateCluster2 q nc us tcn pc cfg = Inr (cfg1, ch1)" and
    b: "cfg_Contexts cfg1 tname = Some tctx'" and
    c: "updateUser2 q (ac_AuthInfo tctx') pu cfg1 = Inr (cfg', ch2)"
    by blast
  note fa = updateCluster2_frame [OF a] and fc = updateUser2_frame [OF c]
  from fa b assms(2) have t: "tctx' = tctx" by simp
  show "\<forall>n. n \<noteq> tcn \<longrightarrow> cfg_Clusters cfg' n = cfg_Clusters cfg n" using fa fc by simp
  show "\<forall>n. n \<noteq> ac_AuthInfo tctx \<longrightarrow> cfg_AuthInfos cfg' n = cfg_AuthInfos cfg n"
    using fa fc t by simp
  show "cfg_Contexts cfg' = cfg_Contexts cfg" using fa fc by simp
  show "cfg_CurrentContext cfg' = cfg_CurrentContext cfg" using fa fc by simp
qed

lemma merge2_returns:
  assumes "cfg_Contexts cfg tname = Some tctx"
  shows "\<exists>cfg' ch. merge2 q nc us tname tcn (Some pc) (Some pu) cfg = Inr (cfg', ch)"
proof -
  obtain cfg1 ch1 where a: "updateCluster2 q nc us tcn (Some pc) cfg = Inr (cfg1, ch1)"
    by (cases "cfg_Clusters cfg tcn") (simp_all add: updateCluster2_def Let_def)
  from updateCluster2_frame [OF a] assms have b: "cfg_Contexts cfg1 tname = Some tctx" by simp
  obtain cfg2 ch2 where c: "updateUser2 q (ac_AuthInfo tctx) (Some pu) cfg1 = Inr (cfg2, ch2)"
    by (cases "cfg_AuthInfos cfg1 (ac_AuthInfo tctx)") (simp_all add: updateUser2_def Let_def)
  from a b c show ?thesis by (simp add: merge2_def)
qed

lemma clusterBody1_idem:
  "clusterBody1 q upd p (fst (clusterBody1 q upd p c)) = (fst (clusterBody1 q upd p c), [])"
  by (simp add: clusterBody1_def Let_def)

lemma userBody1_idem:
  "userBody1 q p (fst (userBody1 q p u)) = (fst (userBody1 q p u), [])"
  by (simp add: userBody1_def Let_def)

lemma clusterLoop1_idem:
  "clusterLoop1 q upd tc p cs = Some (cs', ch) \<Longrightarrow> clusterLoop1 q upd tc p cs' = Some (cs', [])"
proof (induction cs arbitrary: cs' ch)
  case Nil
  then show ?case by simp
next
  case (Cons c cs)
  show ?case
  proof (cases "nc_Name c = tc")
    case True
    with Cons.prems have "cs' = fst (clusterBody1 q upd p c) # cs"
      by (auto split: prod.splits)
    with True show ?thesis
      using clusterBody1_idem [of q upd p c] clusterBody1_name [of q upd p c] by simp
  next
    case False
    with Cons.prems obtain cs0 where "clusterLoop1 q upd tc p cs = Some (cs0, ch)" "cs' = c # cs0"
      by auto
    with Cons.IH False show ?thesis by simp
  qed
qed

lemma userLoop1_idem:
  "userLoop1 q tu p us = Some (us', ch) \<Longrightarrow> userLoop1 q tu p us' = Some (us', [])"
proof (induction us arbitrary: us' ch)
  case Nil
  then show ?case by simp
next
  case (Cons u us)
  show ?case
  proof (cases "nu_Name u = tu")
    case True
    with Cons.prems have "us' = fst (userBody1 q p u) # us"
      by (auto split: prod.splits)
    with True show ?thesis
      using userBody1_idem [of q p u] userBody1_name [of q p u] by simp
  next
    case False
    with Cons.prems obtain us0 where "userLoop1 q tu p us = Some (us0, ch)" "us' = u # us0"
      by auto
    with Cons.IH False show ?thesis by simp
  qed
qed

lemma clusterLoop1_appended:
  "tc \<notin> nc_Name ` set cs \<Longrightarrow>
     clusterLoop1 q upd tc p (cs @ [\<lparr>nc_Name = tc, nc_Cluster = p\<rparr>])
       = Some (cs @ [\<lparr>nc_Name = tc, nc_Cluster = p\<rparr>], [])"
  by (induction cs) (auto simp: clusterBody1_def Let_def)

lemma userLoop1_appended:
  "tu \<notin> nu_Name ` set us \<Longrightarrow>
     userLoop1 q tu p (us @ [\<lparr>nu_Name = tu, nu_User = p\<rparr>])
       = Some (us @ [\<lparr>nu_Name = tu, nu_User = p\<rparr>], [])"
  by (induction us) (auto simp: userBody1_def Let_def)

lemma updateCluster1_idem:
  assumes "updateCluster1 q nc us tc pc cfg = (cfg1, ch)" and "Clusters cfgX = Clusters cfg1"
  shows "updateCluster1 q nc us tc pc cfgX = (cfgX, [])"
proof (cases "clusterLoop1 q (nc \<or> us) tc (nc_Cluster pc) (Clusters cfg)")
  case None
  with assms have "Clusters cfgX = Clusters cfg @ [\<lparr>nc_Name = tc, nc_Cluster = nc_Cluster pc\<rparr>]"
    by (auto simp: updateCluster1_def)
  moreover from None have "tc \<notin> nc_Name ` set (Clusters cfg)"
    by (simp add: clusterLoop1_None)
  ultimately show ?thesis
    using clusterLoop1_appended [of tc "Clusters cfg" q "nc \<or> us" "nc_Cluster pc"]
    by (simp add: updateCluster1_def)
next
  case (Some r)
  then obtain cs' ch' where r: "r = (cs', ch')" by (cases r)
  with Some assms have "Clusters cfgX = cs'" by (auto simp: updateCluster1_def)
  with Some r show ?thesis
    using clusterLoop1_idem [of q "nc \<or> us" tc "nc_Cluster pc" "Clusters cfg" cs' ch']
    by (simp add: updateCluster1_def)
qed

lemma updateUser1_idem:
  assumes "updateUser1 q tu pu cfg = (cfg1, ch)" and "Users cfgX = Users cfg1"
  shows "updateUser1 q tu pu cfgX = (cfgX, [])"
proof (cases "userLoop1 q tu (nu_User pu) (Users cfg)")
  case None
  with assms have "Users cfgX = Users cfg @ [\<lparr>nu_Name = tu, nu_User = nu_User pu\<rparr>]"
    by (auto simp: updateUser1_def)
  moreover from None have "tu \<notin> nu_Name ` set (Users cfg)"
    by (simp add: userLoop1_None)
  ultimately show ?thesis
    using userLoop1_appended [of tu "Users cfg" q "nu_User pu"]
    by (simp add: updateUser1_def)
next
  case (Some r)
  then obtain us' ch' where r: "r = (us', ch')" by (cases r)
  with Some assms have "Users cfgX = us'" by (auto simp: updateUser1_def)
  with Some r show ?thesis
    using userLoop1_idem [of q tu "nu_User pu" "Users cfg" us' ch']
    by (simp add: updateUser1_def)
qed

lemma merge1_idem:
  assumes "merge1 q nc us ti pc pu cfg = (cfg', ch)"
  shows "merge1 q nc us ti pc pu cfg' = (cfg', [])"
proof -
  obtain cfg1 ch1 where a: "updateCluster1 q nc us (targetCluster1 cfg ti) pc cfg = (cfg1, ch1)"
    by (cases "updateCluster1 q nc us (targetCluster1 cfg ti) pc cfg")
  obtain cfg2 ch2 where b: "updateUser1 q (targetUser1 cfg1 ti) pu cfg1 = (cfg2, ch2)"
    by (cases "updateUser1 q (targetUser1 cfg1 ti) pu cfg1")
  from assms a b have c: "cfg' = cfg2" by (simp add: merge1_def)
  note fa = updateCluster1_frame [OF a] and fb = updateUser1_frame [OF b]
  have tc: "targetCluster1 cfg2 ti = targetCluster1 cfg ti"
    using fa fb by (simp add: targetCluster1_def)
  have tu: "targetUser1 cfg2 ti = targetUser1 cfg1 ti"
    using fb by (simp add: targetUser1_def)
  have "Clusters cfg2 = Clusters cfg1" using fb by simp
  from updateCluster1_idem [OF a this]
  have d: "updateCluster1 q nc us (targetCluster1 cfg2 ti) pc cfg2 = (cfg2, [])"
    using tc by simp
  from updateUser1_idem [OF b refl]
  have e: "updateUser1 q (targetUser1 cfg2 ti) pu cfg2 = (cfg2, [])"
    using tu by simp
  from d e c show ?thesis by (simp add: merge1_def)
qed

lemma updateCluster2_idem:
  assumes "updateCluster2 q nc us tcn (Some pc) cfg = Inr (cfg1, ch)"
      and "cfg_Clusters cfgX = cfg_Clusters cfg1"
  shows "updateCluster2 q nc us tcn (Some pc) cfgX = Inr (cfgX, [])"
  using assms
  by (cases "cfg_Clusters cfg tcn")
     (auto simp: updateCluster2_def Let_def map_upd_triv split: if_splits)

lemma updateUser2_idem:
  assumes "updateUser2 q tun (Some pu) cfg = Inr (cfg1, ch)"
      and "cfg_AuthInfos cfgX = cfg_AuthInfos cfg1"
  shows "updateUser2 q tun (Some pu) cfgX = Inr (cfgX, [])"
  using assms
  by (cases "cfg_AuthInfos cfg tun")
     (auto simp: updateUser2_def Let_def map_upd_triv split: if_splits)

subsection \<open>The merge: the entry it rewrites or adds\<close>

lemma find_append_none:
  "find P xs = None \<Longrightarrow> find P (xs @ ys) = find P ys"
  by (induction xs) (auto split: if_splits)

lemma clusterLoop1_find_None:
  "clusterLoop1 q upd tc p cs = None \<longleftrightarrow> find (\<lambda>c. nc_Name c = tc) cs = None"
  by (induction cs) (auto split: prod.splits)

lemma userLoop1_find_None:
  "userLoop1 q tu p us = None \<longleftrightarrow> find (\<lambda>u. nu_Name u = tu) us = None"
  by (induction us) (auto split: prod.splits)

lemma clusterLoop1_find:
  "find (\<lambda>c. nc_Name c = tc) cs = Some c \<Longrightarrow>
     \<exists>cs'. clusterLoop1 q upd tc p cs = Some (cs', snd (clusterBody1 q upd p c))
       \<and> find (\<lambda>c. nc_Name c = tc) cs' = Some (fst (clusterBody1 q upd p c))"
proof (induction cs)
  case Nil
  then show ?case by simp
next
  case (Cons a cs)
  show ?case
  proof (cases "nc_Name a = tc")
    case True
    with Cons.prems have "a = c" by simp
    with True show ?thesis
      using clusterBody1_name [of q upd p c] by (simp add: case_prod_beta)
  next
    case False
    with Cons show ?thesis by auto
  qed
qed

lemma userLoop1_find:
  "find (\<lambda>u. nu_Name u = tu) us = Some u \<Longrightarrow>
     \<exists>us'. userLoop1 q tu p us = Some (us', snd (userBody1 q p u))
       \<and> find (\<lambda>u. nu_Name u = tu) us' = Some (fst (userBody1 q p u))"
proof (induction us)
  case Nil
  then show ?case by simp
next
  case (Cons a us)
  show ?case
  proof (cases "nu_Name a = tu")
    case True
    with Cons.prems have "a = u" by simp
    with True show ?thesis
      using userBody1_name [of q p u] by (simp add: case_prod_beta)
  next
    case False
    with Cons show ?thesis by auto
  qed
qed

lemma updateCluster1_present:
  assumes "find (\<lambda>c. nc_Name c = tc) (Clusters cfg) = Some c"
  shows "snd (updateCluster1 q nc us tc pc cfg) = snd (clusterBody1 q (nc \<or> us) (nc_Cluster pc) c)"
    and "find (\<lambda>c. nc_Name c = tc) (Clusters (fst (updateCluster1 q nc us tc pc cfg)))
           = Some (fst (clusterBody1 q (nc \<or> us) (nc_Cluster pc) c))"
  using clusterLoop1_find [OF assms, of q "nc \<or> us" "nc_Cluster pc"]
  by (auto simp: updateCluster1_def)

lemma updateCluster1_absent:
  assumes "find (\<lambda>c. nc_Name c = tc) (Clusters cfg) = None"
  shows "updateCluster1 q nc us tc pc cfg =
           (cfg\<lparr>Clusters := Clusters cfg @ [\<lparr>nc_Name = tc, nc_Cluster = nc_Cluster pc\<rparr>]\<rparr>,
            [msgClusterAdded1 q tc (nc_Cluster pc)])"
proof -
  from assms have "clusterLoop1 q (nc \<or> us) tc (nc_Cluster pc) (Clusters cfg) = None"
    by (simp add: clusterLoop1_find_None)
  then show ?thesis by (simp add: updateCluster1_def)
qed

lemma updateUser1_present:
  assumes "find (\<lambda>u. nu_Name u = tu) (Users cfg) = Some u"
  shows "snd (updateUser1 q tu pu cfg) = snd (userBody1 q (nu_User pu) u)"
    and "find (\<lambda>u. nu_Name u = tu) (Users (fst (updateUser1 q tu pu cfg)))
           = Some (fst (userBody1 q (nu_User pu) u))"
  using userLoop1_find [OF assms, of q "nu_User pu"]
  by (auto simp: updateUser1_def)

lemma updateUser1_absent:
  assumes "find (\<lambda>u. nu_Name u = tu) (Users cfg) = None"
  shows "updateUser1 q tu pu cfg =
           (cfg\<lparr>Users := Users cfg @ [\<lparr>nu_Name = tu, nu_User = nu_User pu\<rparr>]\<rparr>,
            [msgUserAdded1 q tu (nu_User pu)])"
proof -
  from assms have "userLoop1 q tu (nu_User pu) (Users cfg) = None"
    by (simp add: userLoop1_find_None)
  then show ?thesis by (simp add: updateUser1_def)
qed

lemma updateCluster1_stores_CA:
  "map_option (\<lambda>c. CertificateAuthorityData (nc_Cluster c))
     (find (\<lambda>c. nc_Name c = tc) (Clusters (fst (updateCluster1 q nc us tc pc cfg))))
   = Some (CertificateAuthorityData (nc_Cluster pc))"
proof (cases "find (\<lambda>c. nc_Name c = tc) (Clusters cfg)")
  case None
  then show ?thesis
    by (simp add: updateCluster1_absent find_append_none)
next
  case (Some c)
  then show ?thesis
    by (simp add: updateCluster1_present clusterBody1_def Let_def)
qed

lemma updateUser1_stores:
  "map_option nu_User (find (\<lambda>u. nu_Name u = tu) (Users (fst (updateUser1 q tu pu cfg))))
   = Some (nu_User pu)"
proof (cases "find (\<lambda>u. nu_Name u = tu) (Users cfg)")
  case None
  then show ?thesis
    by (simp add: updateUser1_absent find_append_none)
next
  case (Some u)
  then show ?thesis
    by (simp add: updateUser1_present userBody1_def Let_def)
qed

lemma updateCluster2_stores_CA:
  "\<exists>cfg' ch. updateCluster2 q nc us tcn (Some pc) cfg = Inr (cfg', ch)
     \<and> map_option api_CertificateAuthorityData (cfg_Clusters cfg' tcn)
         = Some (api_CertificateAuthorityData pc)"
  by (cases "cfg_Clusters cfg tcn") (simp_all add: updateCluster2_def Let_def)

lemma updateUser2_stores:
  "\<exists>cfg' ch. updateUser2 q tun (Some pu) cfg = Inr (cfg', ch)
     \<and> map_option (\<lambda>u. (api_Token u, api_ClientCertificateData u, api_ClientKeyData u))
          (cfg_AuthInfos cfg' tun)
         = Some (api_Token pu, api_ClientCertificateData pu, api_ClientKeyData pu)"
  by (cases "cfg_AuthInfos cfg tun") (simp_all add: updateUser2_def Let_def)

lemma length_EncodeToString: "length (EncodeToString d) = 4 * ((length d + 2) div 3)"
proof (induction d rule: EncodeToString.induct)
  case (1 a b c rest)
  have "(5 + length rest) div 3 = Suc ((length rest + 2) div 3)" by presburger
  with 1 show ?case by (simp add: Let_def)
qed (simp_all add: Let_def)

lemma shorten_cases:
  "(length s \<le> 15 \<longrightarrow> shorten s = s)
   \<and> (15 < length s \<longrightarrow> shorten s = take 5 s @ ''...'' @ drop (length s - 5) s)"
  by (simp add: shorten_def)

lemma shortenBytes_cases:
  "shortenBytes [] = ''<empty>''
   \<and> (data \<noteq> [] \<longrightarrow> shortenBytes data = shorten (EncodeToString data))
   \<and> (10 \<le> length data \<longrightarrow> 15 < length (EncodeToString data))"
proof -
  have "10 \<le> length data \<Longrightarrow> 15 < 4 * ((length data + 2) div 3)" by presburger
  then show ?thesis
    by (simp add: shortenBytes_def shorten_def Let_def length_EncodeToString)
qed

subsection \<open>Runs: which steps write files\<close>

lemma writes_append: "writes (xs @ ys) = writes xs @ writes ys"
  by (induction xs rule: writes.induct) simp_all

lemma io_bind_Inr:
  "m = (es, Inr x) \<Longrightarrow> io_bind m f = (es @ fst (f x), snd (f x))"
  by (simp add: io_bind_def split: prod.splits)

lemma io_bind_Inl:
  "m = (es, Inl a) \<Longrightarrow> io_bind m f = (es, Inl a)"
  by (simp add: io_bind_def)

lemma nowrites_bind:
  assumes "writes (fst m) = []" and "\<And>x. writes (fst (f x)) = []"
  shows "writes (fst (io_bind m f)) = []"
proof (cases m)
  case (Pair es r)
  show ?thesis
  proof (cases r)
    case (Inl a)
    with Pair assms(1) show ?thesis by (simp add: io_bind_def)
  next
    case (Inr x)
    with Pair assms(1) assms(2) [of x] show ?thesis
      by (simp add: io_bind_Inr writes_append)
  qed
qed

lemma nowrites_ret: "writes (fst (ret x)) = []"
  by (simp add: ret_def)

lemma nowrites_die: "writes (fst (die msg)) = []"
  by (simp add: die_def)

lemma nowrites_panic: "writes (fst panic) = []"
  by (simp add: panic_def)

lemma nowrites_prompt:
  "writes [ev] = [] \<Longrightarrow> writes (fst (prompt ev answer prefix)) = []"
  by (cases ev) (simp_all add: prompt_def split: sum.splits)

lemmas nowrites = nowrites_bind nowrites_ret nowrites_die nowrites_panic nowrites_prompt

lemma nowrites_expandPath: "writes (fst (expandPath e)) = []"
  by (simp add: expandPath_def Let_def nowrites split: sum.splits)

lemma nowrites_readConfig: "writes (fst (readConfig e p)) = []"
  by (simp add: readConfig_def nowrites split: sum.splits)

lemma writes_map_Stdout: "writes (map (\<lambda>x. Stdout (f x)) xs) = []"
  by (induction xs) simp_all

lemma printed_map_Stdout: "printed (map (\<lambda>x. Stdout (f x)) xs) = map f xs"
  by (induction xs) simp_all

lemma nowrites_report: "writes (fst (report changes)) = []"
  by (simp add: report_def writes_map_Stdout)

lemma nowrites_parseConfig1: "writes (fst (parseConfig1 e d)) = []"
  by (simp add: parseConfig1_def nowrites split: sum.splits)

lemma nowrites_selectTarget1: "writes (fst (selectTarget1 e cfg)) = []"
  by (auto simp: selectTarget1_def Let_def intro!: nowrites split: option.splits)

lemma nowrites_askUpdateServer1: "writes (fst (askUpdateServer1 e cfg ti nc)) = []"
  by (simp add: askUpdateServer1_def nowrites)

lemma nowrites_pasteConfig1: "writes (fst (pasteConfig1 e)) = []"
  by (auto simp: pasteConfig1_def intro!: nowrites split: sum.splits)

lemma nowrites_resolveCluster1: "writes (fst (resolveCluster1 e cfg ti newCfg)) = []"
  by (auto simp: resolveCluster1_def Let_def intro!: nowrites split: option.splits)

lemma nowrites_resolveContext1: "writes (fst (resolveContext1 e newCfg pc)) = []"
  by (auto simp: resolveContext1_def Let_def intro!: nowrites split: option.splits)

lemma nowrites_resolveUser1: "writes (fst (resolveUser1 e newCfg pctx)) = []"
  by (auto simp: resolveUser1_def Let_def intro!: nowrites split: option.splits)

lemma nowrites_marshal1: "writes (fst (marshal1 e cfg)) = []"
  by (simp add: marshal1_def nowrites split: sum.splits)

lemma nowrites_prepare1: "writes (fst (prepare1 e d)) = []"
  unfolding prepare1_def
  by (intro nowrites_bind nowrites_parseConfig1 nowrites_selectTarget1)
     (auto intro!: nowrites_bind nowrites_askUpdateServer1 nowrites_pasteConfig1
        nowrites_resolveCluster1 nowrites_resolveContext1 nowrites_resolveUser1
        nowrites_ret split: prod.splits)

lemma nowrites_parseConfig2: "writes (fst (parseConfig2 e d)) = []"
  by (simp add: parseConfig2_def nowrites split: sum.splits)

lemma nowrites_selectTarget2: "writes (fst (selectTarget2 e cfg)) = []"
  by (auto simp: selectTarget2_def Let_def intro!: nowrites split: option.splits)

lemma nowrites_targetContext2: "writes (fst (targetContext2 cfg n)) = []"
  by (simp add: targetContext2_def nowrites split: option.splits)

lemma nowrites_askUpdateServer2: "writes (fst (askUpdateServer2 e cfg tn nc)) = []"
  by (auto simp: askUpdateServer2_def intro!: nowrites nowrites_targetContext2)

lemma nowrites_pasteConfig2: "writes (fst (pasteConfig2 e)) = []"
  by (auto simp: pasteConfig2_def intro!: nowrites split: sum.splits)

lemma nowrites_resolveCluster2: "writes (fst (resolveCluster2 e cfg tn newCfg)) = []"
  by (auto simp: resolveCluster2_def Let_def intro!: nowrites nowrites_targetContext2
        split: option.splits)

lemma nowrites_resolveContext2: "writes (fst (resolveContext2 e newCfg tcn)) = []"
  by (auto simp: resolveContext2_def Let_def intro!: nowrites split: option.splits)

lemma nowrites_resolveUser2: "writes (fst (resolveUser2 e newCfg pctx)) = []"
  by (auto simp: resolveUser2_def Let_def intro!: nowrites split: option.splits)

lemma nowrites_prepare2: "writes (fst (prepare2 e d)) = []"
  unfolding prepare2_def
  by (intro nowrites_bind nowrites_parseConfig2 nowrites_selectTarget2)
     (auto intro!: nowrites_bind nowrites_askUpdateServer2 nowrites_pasteConfig2
        nowrites_resolveCluster2 nowrites_resolveContext2 nowrites_resolveUser2
        nowrites_ret split: prod.splits sum.splits)

lemma writer1_try:
  "tryFlag e \<Longrightarrow> writer1 e cp orig out =
     ([Stdout (nl @ ''---- Updated kubeconfig (try mode) ----'' @ nl), Stdout (out @ nl)], Inr ())"
  by (simp add: writer1_def)

lemma writer2_try:
  "tryFlag e \<Longrightarrow> Write e cfg = Inr out \<Longrightarrow> writer2 e cp orig cfg =
     ([Stdout (nl @ ''---- Updated kubeconfig (try mode) ----'' @ nl), Stdout (out @ nl)], Inr ())"
  by (simp add: writer2_def)

lemma nowrites_writer1_try: "tryFlag e \<Longrightarrow> writes (fst (writer1 e cp orig out)) = []"
  by (simp add: writer1_try)

lemma nowrites_writer2_try: "tryFlag e \<Longrightarrow> writes (fst (writer2 e cp orig cfg)) = []"
  by (simp add: writer2_def nowrites split: sum.splits)

lemma main1_try_nowrites: "tryFlag e \<Longrightarrow> writes (fst (main1 e)) = []"
  unfolding main1_def
  by (intro nowrites_bind nowrites_expandPath nowrites_readConfig nowrites_prepare1)
     (auto intro!: nowrites_bind nowrites_marshal1 nowrites_report nowrites_writer1_try)

lemma main2_try_nowrites: "tryFlag e \<Longrightarrow> writes (fst (main2 e)) = []"
  unfolding main2_def
  by (intro nowrites_bind nowrites_expandPath nowrites_readConfig nowrites_prepare2)
     (auto intro!: nowrites_bind nowrites_report nowrites_writer2_try)

section \<open>The claims\<close>

subsection \<open>C7: truncation in the report\<close>

text \<open>
  Claim C7. \<^verbatim>\<open>shorten\<close> returns a string of at most 15 bytes unchanged and turns a
  longer one into its first five bytes, three dots and its last five bytes.
  \<^verbatim>\<open>shortenBytes\<close> gives \<open><empty>\<close> for an empty byte slice and otherwise does to the
  base64 text of the slice what \<^verbatim>\<open>shorten\<close> does to a string; ten bytes or more always
  encode to more than 15 characters. Truncation is for the report only: after the
  cluster step and the user step of either program the target entry holds the pasted
  certificate-authority data, token, client certificate and client key in full.
\<close>

theorem truncation_policy:
  "(length s \<le> 15 \<longrightarrow> shorten s = s)
   \<and> (15 < length t \<longrightarrow> shorten t = take 5 t @ ''...'' @ drop (length t - 5) t)
   \<and> shortenBytes [] = ''<empty>''
   \<and> (data \<noteq> [] \<longrightarrow> shortenBytes data = shorten (EncodeToString data))
   \<and> (10 \<le> length data \<longrightarrow>
        shortenBytes data = take 5 (EncodeToString data) @ ''...''
          @ drop (length (EncodeToString data) - 5) (EncodeToString data))
   \<and> map_option (\<lambda>c. CertificateAuthorityData (nc_Cluster c))
        (find (\<lambda>c. nc_Name c = tc) (Clusters (fst (updateCluster1 q nc us tc pc cfg))))
       = Some (CertificateAuthorityData (nc_Cluster pc))
   \<and> map_option nu_User (find (\<lambda>u. nu_Name u = tu) (Users (fst (updateUser1 q tu pu cfg))))
       = Some (nu_User pu)
   \<and> (\<exists>cfg' ch. updateCluster2 q nc us tc (Some pc2) cfg2 = Inr (cfg', ch)
         \<and> map_option api_CertificateAuthorityData (cfg_Clusters cfg' tc)
             = Some (api_CertificateAuthorityData pc2))
   \<and> (\<exists>cfg' ch. updateUser2 q tu (Some pu2) cfg2 = Inr (cfg', ch)
         \<and> map_option (\<lambda>u. (api_Token u, api_ClientCertificateData u, api_ClientKeyData u))
              (cfg_AuthInfos cfg' tu)
             = Some (api_Token pu2, api_ClientCertificateData pu2, api_ClientKeyData pu2))"
proof -
  have "10 \<le> length data \<longrightarrow>
        shortenBytes data = take 5 (EncodeToString data) @ ''...''
          @ drop (length (EncodeToString data) - 5) (EncodeToString data)"
  proof
    assume l: "10 \<le> length data"
    with shortenBytes_cases [of data] have "15 < length (EncodeToString data)" by simp
    with l show "shortenBytes data = take 5 (EncodeToString data) @ ''...''
          @ drop (length (EncodeToString data) - 5) (EncodeToString data)"
      by (auto simp: shortenBytes_def Let_def)
  qed
  then show ?thesis
    using shorten_cases [of s] shorten_cases [of t] shortenBytes_cases [of data]
      updateCluster1_stores_CA [of tc q nc us pc cfg] updateUser1_stores [of tu q pu cfg]
      updateCluster2_stores_CA [of q nc us tc pc2 cfg2] updateUser2_stores [of q tu pu2 cfg2]
    by blast
qed

text \<open>
  C7 at a string of 15 bytes, a string of 16 bytes and a slice of ten bytes, whose
  base64 text is \<open>MDEyMzQ1Njc4OQ==\<close>.
\<close>

theorem truncation_policy_witness:
  "length ''0123456789abcde'' \<le> 15 \<and> shorten ''0123456789abcde'' = ''0123456789abcde''
   \<and> 15 < length ''0123456789abcdef'' \<and> shorten ''0123456789abcdef'' = ''01234...bcdef''
   \<and> ''0123456789'' \<noteq> [] \<and> 10 \<le> length ''0123456789''
   \<and> shortenBytes ''0123456789'' = ''MDEyM...4OQ==''"
  using truncation_policy [where s = "''0123456789abcde''" and t = "''0123456789abcdef''"
      and data = "''0123456789''"]
  by (simp add: enc6_def encodeStd_def shorten_def)

subsection \<open>C1: what the merge leaves alone\<close>

text \<open>
  Claim C1. The merge leaves every cluster entry whose name differs from the target
  context's cluster name, every user entry whose name differs from the target context's
  user name, every context entry and the current-context marker as they were. In the
  first program the entries are slice elements, so the entries with another name are
  the same, in the same order; the merge changes no context at all. In the second
  program the merge returns whenever the pasted cluster and user are not nil, and every
  other key of the two maps keeps its value.
\<close>

theorem merge_frame:
  "(let cfg' = fst (merge1 q nc us ti pc pu cfg)
    in filter (\<lambda>c. nc_Name c \<noteq> targetCluster1 cfg ti) (Clusters cfg')
         = filter (\<lambda>c. nc_Name c \<noteq> targetCluster1 cfg ti) (Clusters cfg)
       \<and> filter (\<lambda>u. nu_Name u \<noteq> targetUser1 cfg ti) (Users cfg')
         = filter (\<lambda>u. nu_Name u \<noteq> targetUser1 cfg ti) (Users cfg)
       \<and> Contexts cfg' = Contexts cfg
       \<and> CurrentContext cfg' = CurrentContext cfg)
   \<and> (cfg_Contexts cfg2 tname = Some tctx \<longrightarrow>
        (\<exists>cfg' ch.
           merge2 q nc us tname (ac_Cluster tctx) (Some pc2) (Some pu2) cfg2 = Inr (cfg', ch)
           \<and> (\<forall>n. n \<noteq> ac_Cluster tctx \<longrightarrow> cfg_Clusters cfg' n = cfg_Clusters cfg2 n)
           \<and> (\<forall>n. n \<noteq> ac_AuthInfo tctx \<longrightarrow> cfg_AuthInfos cfg' n = cfg_AuthInfos cfg2 n)
           \<and> cfg_Contexts cfg' = cfg_Contexts cfg2
           \<and> cfg_CurrentContext cfg' = cfg_CurrentContext cfg2))"
proof (intro conjI impI)
  obtain cfg' ch where m: "merge1 q nc us ti pc pu cfg = (cfg', ch)"
    by (cases "merge1 q nc us ti pc pu cfg")
  from merge1_frame [OF m] m
  show "let cfg' = fst (merge1 q nc us ti pc pu cfg)
    in filter (\<lambda>c. nc_Name c \<noteq> targetCluster1 cfg ti) (Clusters cfg')
         = filter (\<lambda>c. nc_Name c \<noteq> targetCluster1 cfg ti) (Clusters cfg)
       \<and> filter (\<lambda>u. nu_Name u \<noteq> targetUser1 cfg ti) (Users cfg')
         = filter (\<lambda>u. nu_Name u \<noteq> targetUser1 cfg ti) (Users cfg)
       \<and> Contexts cfg' = Contexts cfg
       \<and> CurrentContext cfg' = CurrentContext cfg"
    by (simp add: Let_def)
next
  assume t: "cfg_Contexts cfg2 tname = Some tctx"
  from merge2_returns [OF t] obtain cfg' ch where
    m: "merge2 q nc us tname (ac_Cluster tctx) (Some pc2) (Some pu2) cfg2 = Inr (cfg', ch)"
    by blast
  from merge2_frame [OF m t] m
  show "\<exists>cfg' ch.
           merge2 q nc us tname (ac_Cluster tctx) (Some pc2) (Some pu2) cfg2 = Inr (cfg', ch)
           \<and> (\<forall>n. n \<noteq> ac_Cluster tctx \<longrightarrow> cfg_Clusters cfg' n = cfg_Clusters cfg2 n)
           \<and> (\<forall>n. n \<noteq> ac_AuthInfo tctx \<longrightarrow> cfg_AuthInfos cfg' n = cfg_AuthInfos cfg2 n)
           \<and> cfg_Contexts cfg' = cfg_Contexts cfg2
           \<and> cfg_CurrentContext cfg' = cfg_CurrentContext cfg2"
    by blast
qed

text \<open>
  C1 at the example documents, target context \<open>prod\<close>: the entries of \<open>dev-cluster\<close>
  and \<open>dev-user\<close> are what they were.
\<close>

theorem merge_frame_witness:
  "cfg_Contexts exDisk2 ''prod''
     = Some \<lparr>ac_Cluster = ''prod-cluster'', ac_AuthInfo = ''prod-user''\<rparr>
   \<and> filter (\<lambda>c. nc_Name c \<noteq> ''prod-cluster'')
        (Clusters (fst (merge1 exQuote False True 0 exPastedCluster1 exPastedUser1 exDisk1)))
       = [\<lparr>nc_Name = ''dev-cluster'',
           nc_Cluster = \<lparr>Server = ''https://dev.example:6443'',
                         CertificateAuthorityData = ''REVWQ0E=''\<rparr>\<rparr>]
   \<and> filter (\<lambda>u. nu_Name u \<noteq> ''prod-user'')
        (Users (fst (merge1 exQuote False True 0 exPastedCluster1 exPastedUser1 exDisk1)))
       = [\<lparr>nu_Name = ''dev-user'',
           nu_User = \<lparr>Token = ''tok-dev'', ClientCertificateData = [], ClientKeyData = []\<rparr>\<rparr>]
   \<and> Contexts (fst (merge1 exQuote False True 0 exPastedCluster1 exPastedUser1 exDisk1))
       = Contexts exDisk1
   \<and> CurrentContext (fst (merge1 exQuote False True 0 exPastedCluster1 exPastedUser1 exDisk1))
       = ''prod''
   \<and> (\<exists>cfg' ch.
         merge2 exQuote False True ''prod'' ''prod-cluster''
           (Some exPastedCluster2) (Some exPastedUser2) exDisk2 = Inr (cfg', ch)
         \<and> cfg_Clusters cfg' ''dev-cluster''
             = Some \<lparr>api_Server = ''https://dev.example:6443'',
                     api_CertificateAuthorityData = ''DEVCA''\<rparr>
         \<and> cfg_AuthInfos cfg' ''dev-user''
             = Some \<lparr>api_Token = ''tok-dev'', api_ClientCertificateData = [],
                     api_ClientKeyData = []\<rparr>
         \<and> cfg_Contexts cfg' = cfg_Contexts exDisk2
         \<and> cfg_CurrentContext cfg' = ''prod'')"
proof -
  have h: "cfg_Contexts exDisk2 ''prod''
     = Some \<lparr>ac_Cluster = ''prod-cluster'', ac_AuthInfo = ''prod-user''\<rparr>"
    by (simp add: exDisk2_def)
  have tc: "targetCluster1 exDisk1 0 = ''prod-cluster''"
    by (simp add: targetCluster1_def exDisk1_def)
  have tu: "targetUser1 exDisk1 0 = ''prod-user''"
    by (simp add: targetUser1_def exDisk1_def)
  note t = merge_frame [where q = exQuote and nc = False and us = True and ti = 0
      and pc = exPastedCluster1 and pu = exPastedUser1 and cfg = exDisk1
      and ?cfg2.0 = exDisk2 and tname = "''prod''"
      and tctx = "\<lparr>ac_Cluster = ''prod-cluster'', ac_AuthInfo = ''prod-user''\<rparr>"
      and ?pc2.0 = exPastedCluster2 and ?pu2.0 = exPastedUser2]
  from t h obtain cfg' ch where
    m: "merge2 exQuote False True ''prod'' ''prod-cluster''
           (Some exPastedCluster2) (Some exPastedUser2) exDisk2 = Inr (cfg', ch)"
    and c: "\<forall>n. n \<noteq> ''prod-cluster'' \<longrightarrow> cfg_Clusters cfg' n = cfg_Clusters exDisk2 n"
    and u: "\<forall>n. n \<noteq> ''prod-user'' \<longrightarrow> cfg_AuthInfos cfg' n = cfg_AuthInfos exDisk2 n"
    and x: "cfg_Contexts cfg' = cfg_Contexts exDisk2"
    and cc: "cfg_CurrentContext cfg' = cfg_CurrentContext exDisk2"
    by auto
  from c have c': "cfg_Clusters cfg' ''dev-cluster'' = cfg_Clusters exDisk2 ''dev-cluster''"
    by simp
  from u have u': "cfg_AuthInfos cfg' ''dev-user'' = cfg_AuthInfos exDisk2 ''dev-user''"
    by simp
  have v2: "\<exists>cfg' ch.
         merge2 exQuote False True ''prod'' ''prod-cluster''
           (Some exPastedCluster2) (Some exPastedUser2) exDisk2 = Inr (cfg', ch)
         \<and> cfg_Clusters cfg' ''dev-cluster''
             = Some \<lparr>api_Server = ''https://dev.example:6443'',
                     api_CertificateAuthorityData = ''DEVCA''\<rparr>
         \<and> cfg_AuthInfos cfg' ''dev-user''
             = Some \<lparr>api_Token = ''tok-dev'', api_ClientCertificateData = [],
                     api_ClientKeyData = []\<rparr>
         \<and> cfg_Contexts cfg' = cfg_Contexts exDisk2
         \<and> cfg_CurrentContext cfg' = ''prod''"
    using m c' u' x cc by (simp add: exDisk2_def)
  from t have
    "filter (\<lambda>c. nc_Name c \<noteq> ''prod-cluster'')
        (Clusters (fst (merge1 exQuote False True 0 exPastedCluster1 exPastedUser1 exDisk1)))
       = filter (\<lambda>c. nc_Name c \<noteq> ''prod-cluster'') (Clusters exDisk1)"
    "filter (\<lambda>u. nu_Name u \<noteq> ''prod-user'')
        (Users (fst (merge1 exQuote False True 0 exPastedCluster1 exPastedUser1 exDisk1)))
       = filter (\<lambda>u. nu_Name u \<noteq> ''prod-user'') (Users exDisk1)"
    "Contexts (fst (merge1 exQuote False True 0 exPastedCluster1 exPastedUser1 exDisk1))
       = Contexts exDisk1"
    "CurrentContext (fst (merge1 exQuote False True 0 exPastedCluster1 exPastedUser1 exDisk1))
       = CurrentContext exDisk1"
    by (simp_all add: Let_def tc tu)
  then show ?thesis using h v2 by (simp add: exDisk1_def)
qed

subsection \<open>C2: the server URL is overwritten only on request\<close>

lemma find_Some_name: "find (\<lambda>c. nc_Name c = tc) cs = Some c \<Longrightarrow> nc_Name c = tc"
  by (induction cs) (auto split: if_splits)

lemma find_Some_uname: "find (\<lambda>u. nu_Name u = tu) us = Some u \<Longrightarrow> nu_Name u = tu"
  by (induction us) (auto split: if_splits)

lemma find_None_names: "find (\<lambda>c. nc_Name c = tc) cs = None \<longleftrightarrow> tc \<notin> nc_Name ` set cs"
  by (induction cs) auto

lemma merge1_steps:
  "merge1 q nc us ti pc pu cfg =
     (fst (updateUser1 q (targetUser1 cfg ti) pu
             (fst (updateCluster1 q nc us (targetCluster1 cfg ti) pc cfg))),
      snd (updateCluster1 q nc us (targetCluster1 cfg ti) pc cfg)
        @ snd (updateUser1 q (targetUser1 cfg ti) pu cfg))"
proof -
  obtain cfg1 ch1 where a: "updateCluster1 q nc us (targetCluster1 cfg ti) pc cfg = (cfg1, ch1)"
    by (cases "updateCluster1 q nc us (targetCluster1 cfg ti) pc cfg")
  note fa = updateCluster1_frame [OF a]
  have tu: "targetUser1 cfg1 ti = targetUser1 cfg ti"
    using fa by (simp add: targetUser1_def)
  have "snd (updateUser1 q (targetUser1 cfg ti) pu cfg1)
          = snd (updateUser1 q (targetUser1 cfg ti) pu cfg)"
    using fa by (simp add: updateUser1_def split: option.splits)
  with a tu show ?thesis
    by (simp add: merge1_def case_prod_beta)
qed



subsection \<open>C6: a cluster that is not on disk is added\<close>

lemma added_cluster_steps:
  "(tc \<notin> nc_Name ` set (Clusters cfg) \<longrightarrow>
      updateCluster1 q nc us tc pc cfg
        = (cfg\<lparr>Clusters := Clusters cfg @ [\<lparr>nc_Name = tc, nc_Cluster = nc_Cluster pc\<rparr>]\<rparr>,
           [msgClusterAdded1 q tc (nc_Cluster pc)])
      \<and> length (filter (\<lambda>c. nc_Name c = tc)
                  (Clusters (fst (updateCluster1 q nc us tc pc cfg)))) = 1)
   \<and> (targetCluster1 cfg ti \<notin> nc_Name ` set (Clusters cfg) \<longrightarrow>
        Clusters (fst (merge1 q nc us ti pc pu cfg))
          = Clusters cfg @ [\<lparr>nc_Name = targetCluster1 cfg ti, nc_Cluster = nc_Cluster pc\<rparr>]
        \<and> snd (merge1 q nc us ti pc pu cfg)
          = msgClusterAdded1 q (targetCluster1 cfg ti) (nc_Cluster pc)
              # snd (updateUser1 q (targetUser1 cfg ti) pu cfg))
   \<and> (cfg_Clusters cfg2 tc = None \<longrightarrow>
        updateCluster2 q nc us tc (Some pc2) cfg2
          = Inr (cfg2\<lparr>cfg_Clusters := (cfg_Clusters cfg2)(tc \<mapsto> pc2)\<rparr>,
                 [msgClusterAdded2 q tc pc2]))
   \<and> (cfg_Clusters cfg2 tc = None \<and> cfg_Contexts cfg2 tname = Some tctx \<longrightarrow>
        (\<exists>cfg' uch.
           merge2 q nc us tname tc (Some pc2) (Some pu2) cfg2
             = Inr (cfg', msgClusterAdded2 q tc pc2 # uch)
           \<and> cfg_Clusters cfg' = (cfg_Clusters cfg2)(tc \<mapsto> pc2)
           \<and> updateUser2 q (ac_AuthInfo tctx) (Some pu2) cfg2
               = Inr (cfg2\<lparr>cfg_AuthInfos := cfg_AuthInfos cfg'\<rparr>, uch)))"
proof (intro conjI impI)
  assume a: "tc \<notin> nc_Name ` set (Clusters cfg)"
  then have f: "find (\<lambda>c. nc_Name c = tc) (Clusters cfg) = None"
    by (simp add: find_None_names)
  from updateCluster1_absent [OF f]
  show u: "updateCluster1 q nc us tc pc cfg
        = (cfg\<lparr>Clusters := Clusters cfg @ [\<lparr>nc_Name = tc, nc_Cluster = nc_Cluster pc\<rparr>]\<rparr>,
           [msgClusterAdded1 q tc (nc_Cluster pc)])" .
  from a have "filter (\<lambda>c. nc_Name c = tc) (Clusters cfg) = []"
    by (auto simp: filter_empty_conv)
  with u show "length (filter (\<lambda>c. nc_Name c = tc)
                  (Clusters (fst (updateCluster1 q nc us tc pc cfg)))) = 1"
    by simp
next
  assume a: "targetCluster1 cfg ti \<notin> nc_Name ` set (Clusters cfg)"
  then have f: "find (\<lambda>c. nc_Name c = targetCluster1 cfg ti) (Clusters cfg) = None"
    by (simp add: find_None_names)
  note u = updateCluster1_absent [OF f, of q nc us pc]
  obtain cfgu chu where b:
    "updateUser1 q (targetUser1 cfg ti) pu
       (fst (updateCluster1 q nc us (targetCluster1 cfg ti) pc cfg)) = (cfgu, chu)"
    by (cases "updateUser1 q (targetUser1 cfg ti) pu
       (fst (updateCluster1 q nc us (targetCluster1 cfg ti) pc cfg))")
  from updateUser1_frame [OF b] b u
  show "Clusters (fst (merge1 q nc us ti pc pu cfg))
          = Clusters cfg @ [\<lparr>nc_Name = targetCluster1 cfg ti, nc_Cluster = nc_Cluster pc\<rparr>]"
    by (simp add: merge1_steps)
  from u show "snd (merge1 q nc us ti pc pu cfg)
          = msgClusterAdded1 q (targetCluster1 cfg ti) (nc_Cluster pc)
              # snd (updateUser1 q (targetUser1 cfg ti) pu cfg)"
    by (simp add: merge1_steps)
next
  assume "cfg_Clusters cfg2 tc = None"
  then show "updateCluster2 q nc us tc (Some pc2) cfg2
          = Inr (cfg2\<lparr>cfg_Clusters := (cfg_Clusters cfg2)(tc \<mapsto> pc2)\<rparr>,
                 [msgClusterAdded2 q tc pc2])"
    by (simp add: updateCluster2_def)
next
  assume h: "cfg_Clusters cfg2 tc = None \<and> cfg_Contexts cfg2 tname = Some tctx"
  then have a: "updateCluster2 q nc us tc (Some pc2) cfg2
          = Inr (cfg2\<lparr>cfg_Clusters := (cfg_Clusters cfg2)(tc \<mapsto> pc2)\<rparr>,
                 [msgClusterAdded2 q tc pc2])"
    by (simp add: updateCluster2_def)
  show "\<exists>cfg' uch.
           merge2 q nc us tname tc (Some pc2) (Some pu2) cfg2
             = Inr (cfg', msgClusterAdded2 q tc pc2 # uch)
           \<and> cfg_Clusters cfg' = (cfg_Clusters cfg2)(tc \<mapsto> pc2)
           \<and> updateUser2 q (ac_AuthInfo tctx) (Some pu2) cfg2
               = Inr (cfg2\<lparr>cfg_AuthInfos := cfg_AuthInfos cfg'\<rparr>, uch)"
    using h a
    by (cases "cfg_AuthInfos cfg2 (ac_AuthInfo tctx)")
       (simp_all add: merge2_def updateUser2_def Let_def)
qed

text \<open>
  Claim C6. When no on-disk cluster entry has the target context's cluster name, the
  merge adds one entry under that name that holds the pasted cluster's server URL and
  CA data, and the cluster step emits a single change entry: the text
  \<open>Added new cluster\<close> (first program) or \<open>Added cluster\<close> (second program), the quoted
  name, the server and the CA data, both as the report renders them. In the whole merge
  that entry comes first and the entries of the user step follow. In the second program
  the pasted cluster must not be nil.
\<close>

theorem added_cluster:
  "(tc \<notin> nc_Name ` set (Clusters cfg) \<longrightarrow>
      updateCluster1 q nc us tc pc cfg
        = (cfg\<lparr>Clusters := Clusters cfg @ [\<lparr>nc_Name = tc, nc_Cluster = nc_Cluster pc\<rparr>]\<rparr>,
           [(''Added new cluster '' @ q tc @ '' with server ''
              @ shorten (Server (nc_Cluster pc)) @ '' and certificateAuthorityData ''
              @ shorten (CertificateAuthorityData (nc_Cluster pc)))])
      \<and> length (filter (\<lambda>c. nc_Name c = tc)
                  (Clusters (fst (updateCluster1 q nc us tc pc cfg)))) = 1)
   \<and> (targetCluster1 cfg ti \<notin> nc_Name ` set (Clusters cfg) \<longrightarrow>
        Clusters (fst (merge1 q nc us ti pc pu cfg))
          = Clusters cfg @ [\<lparr>nc_Name = targetCluster1 cfg ti, nc_Cluster = nc_Cluster pc\<rparr>]
        \<and> snd (merge1 q nc us ti pc pu cfg)
          = (''Added new cluster '' @ q (targetCluster1 cfg ti) @ '' with server ''
              @ shorten (Server (nc_Cluster pc)) @ '' and certificateAuthorityData ''
              @ shorten (CertificateAuthorityData (nc_Cluster pc)))
              # snd (updateUser1 q (targetUser1 cfg ti) pu cfg))
   \<and> (cfg_Clusters cfg2 tc = None \<longrightarrow>
        updateCluster2 q nc us tc (Some pc2) cfg2
          = Inr (cfg2\<lparr>cfg_Clusters := (cfg_Clusters cfg2)(tc \<mapsto> pc2)\<rparr>,
                 [(''Added cluster '' @ q tc @ '' with server '' @ api_Server pc2
                   @ '' and CA data ''
                   @ shortenBytes (api_CertificateAuthorityData pc2))]))
   \<and> (cfg_Clusters cfg2 tc = None \<and> cfg_Contexts cfg2 tname = Some tctx \<longrightarrow>
        (\<exists>cfg' uch.
           merge2 q nc us tname tc (Some pc2) (Some pu2) cfg2
             = Inr (cfg', (''Added cluster '' @ q tc @ '' with server '' @ api_Server pc2
                   @ '' and CA data ''
                   @ shortenBytes (api_CertificateAuthorityData pc2)) # uch)
           \<and> cfg_Clusters cfg' = (cfg_Clusters cfg2)(tc \<mapsto> pc2)
           \<and> updateUser2 q (ac_AuthInfo tctx) (Some pu2) cfg2
               = Inr (cfg2\<lparr>cfg_AuthInfos := cfg_AuthInfos cfg'\<rparr>, uch)))"
  by (rule added_cluster_steps [unfolded msgClusterAdded1_def msgClusterAdded2_def])

text \<open>
  C6 at the documents in which the new-context path has just added the context
  \<open>stage\<close>, whose cluster \<open>stage-cluster\<close> has no entry: the change entry names the
  server and the CA data of the pasted cluster.
\<close>

theorem added_cluster_witness:
  "''stage-cluster'' \<notin> nc_Name ` set (Clusters exStage1)
   \<and> targetCluster1 exStage1 2 = ''stage-cluster''
   \<and> cfg_Clusters exStage2 ''stage-cluster'' = None
   \<and> cfg_Contexts exStage2 ''stage''
       = Some \<lparr>ac_Cluster = ''stage-cluster'', ac_AuthInfo = ''stage-user''\<rparr>
   \<and> updateCluster1 exQuote True False ''stage-cluster'' exPastedCluster1 exStage1
       = (exStage1\<lparr>Clusters := Clusters exStage1
            @ [\<lparr>nc_Name = ''stage-cluster'',
                nc_Cluster = \<lparr>Server = ''https://new.example:6443'',
                              CertificateAuthorityData = ''TkVXQ0FEQVRBMTIzNDU2Nzg5''\<rparr>\<rparr>]\<rparr>,
          [''Added new cluster '' @ exQuote ''stage-cluster''
             @ '' with server https...:6443 and certificateAuthorityData TkVXQ...2Nzg5''])
   \<and> length (filter (\<lambda>c. nc_Name c = ''stage-cluster'')
        (Clusters (fst (updateCluster1 exQuote True False ''stage-cluster''
                          exPastedCluster1 exStage1)))) = 1
   \<and> Clusters (fst (merge1 exQuote True False 2 exPastedCluster1 exPastedUser1 exStage1))
       = Clusters exStage1
           @ [\<lparr>nc_Name = ''stage-cluster'', nc_Cluster = nc_Cluster exPastedCluster1\<rparr>]
   \<and> hd (snd (merge1 exQuote True False 2 exPastedCluster1 exPastedUser1 exStage1))
       = ''Added new cluster '' @ exQuote ''stage-cluster''
           @ '' with server https...:6443 and certificateAuthorityData TkVXQ...2Nzg5''
   \<and> updateCluster2 exQuote True False ''stage-cluster'' (Some exPastedCluster2) exStage2
       = Inr (exStage2\<lparr>cfg_Clusters :=
                         (cfg_Clusters exStage2)(''stage-cluster'' \<mapsto> exPastedCluster2)\<rparr>,
              [''Added cluster '' @ exQuote ''stage-cluster''
                 @ '' with server https://new.example:6443 and CA data TkVXQ...BMTIz''])
   \<and> (\<exists>cfg' uch.
         merge2 exQuote True False ''stage'' ''stage-cluster''
           (Some exPastedCluster2) (Some exPastedUser2) exStage2
           = Inr (cfg', (''Added cluster '' @ exQuote ''stage-cluster''
                          @ '' with server https://new.example:6443 and CA data TkVXQ...BMTIz'')
                        # uch)
         \<and> cfg_Clusters cfg' ''stage-cluster'' = Some exPastedCluster2)"
proof -
  have h1: "''stage-cluster'' \<notin> nc_Name ` set (Clusters exStage1)"
    by (simp add: exStage1_def exDisk1_def)
  have h2: "targetCluster1 exStage1 2 = ''stage-cluster''"
    by (simp add: targetCluster1_def exStage1_def exDisk1_def)
  have h3: "cfg_Clusters exStage2 ''stage-cluster'' = None"
    by (simp add: exStage2_def exDisk2_def)
  have h4: "cfg_Contexts exStage2 ''stage''
       = Some \<lparr>ac_Cluster = ''stage-cluster'', ac_AuthInfo = ''stage-user''\<rparr>"
    by (simp add: exStage2_def)
  have s1: "shorten (Server (nc_Cluster exPastedCluster1)) = ''https...:6443''"
    by (simp add: exPastedCluster1_def shorten_def)
  have s2: "shorten (CertificateAuthorityData (nc_Cluster exPastedCluster1)) = ''TkVXQ...2Nzg5''"
    by (simp add: exPastedCluster1_def shorten_def)
  have s3: "api_Server exPastedCluster2 = ''https://new.example:6443''"
    by (simp add: exPastedCluster2_def)
  have s4: "shortenBytes (api_CertificateAuthorityData exPastedCluster2) = ''TkVXQ...BMTIz''"
    by (simp add: exPastedCluster2_def shortenBytes_def enc6_def encodeStd_def)
  have s5: "nc_Cluster exPastedCluster1
              = \<lparr>Server = ''https://new.example:6443'',
                 CertificateAuthorityData = ''TkVXQ0FEQVRBMTIzNDU2Nzg5''\<rparr>"
    by (simp add: exPastedCluster1_def)
  note t = added_cluster [where q = exQuote and nc = True and us = False
      and tc = "''stage-cluster''" and cfg = exStage1 and pc = exPastedCluster1
      and ti = 2 and pu = exPastedUser1
      and ?cfg2.0 = exStage2 and ?pc2.0 = exPastedCluster2 and ?pu2.0 = exPastedUser2
      and tname = "''stage''"
      and tctx = "\<lparr>ac_Cluster = ''stage-cluster'', ac_AuthInfo = ''stage-user''\<rparr>",
      unfolded s1 s2 s3 s4 h2]
  from t h3 h4 obtain cfg' uch where
    m: "merge2 exQuote True False ''stage'' ''stage-cluster''
           (Some exPastedCluster2) (Some exPastedUser2) exStage2
           = Inr (cfg', (''Added cluster '' @ exQuote ''stage-cluster'' @ '' with server ''
                          @ ''https://new.example:6443'' @ '' and CA data ''
                          @ ''TkVXQ...BMTIz'') # uch)"
    and c: "cfg_Clusters cfg' = (cfg_Clusters exStage2)(''stage-cluster'' \<mapsto> exPastedCluster2)"
    by blast
  from c have c': "cfg_Clusters cfg' ''stage-cluster'' = Some exPastedCluster2" by simp
  from m c' have v2: "\<exists>cfg' uch.
         merge2 exQuote True False ''stage'' ''stage-cluster''
           (Some exPastedCluster2) (Some exPastedUser2) exStage2
           = Inr (cfg', (''Added cluster '' @ exQuote ''stage-cluster''
                          @ '' with server https://new.example:6443 and CA data TkVXQ...BMTIz'')
                        # uch)
         \<and> cfg_Clusters cfg' ''stage-cluster'' = Some exPastedCluster2"
    by auto
  from t h1 have v1:
    "updateCluster1 exQuote True False ''stage-cluster'' exPastedCluster1 exStage1
      = (exStage1\<lparr>Clusters := Clusters exStage1
            @ [\<lparr>nc_Name = ''stage-cluster'', nc_Cluster = nc_Cluster exPastedCluster1\<rparr>]\<rparr>,
         [''Added new cluster '' @ exQuote ''stage-cluster'' @ '' with server ''
            @ ''https...:6443'' @ '' and certificateAuthorityData '' @ ''TkVXQ...2Nzg5''])"
    "length (filter (\<lambda>c. nc_Name c = ''stage-cluster'')
        (Clusters (fst (updateCluster1 exQuote True False ''stage-cluster''
                          exPastedCluster1 exStage1)))) = 1"
    by blast+
  from t h1 have v1m:
    "Clusters (fst (merge1 exQuote True False 2 exPastedCluster1 exPastedUser1 exStage1))
       = Clusters exStage1
           @ [\<lparr>nc_Name = ''stage-cluster'', nc_Cluster = nc_Cluster exPastedCluster1\<rparr>]"
    "snd (merge1 exQuote True False 2 exPastedCluster1 exPastedUser1 exStage1)
       = (''Added new cluster '' @ exQuote ''stage-cluster'' @ '' with server ''
            @ ''https...:6443'' @ '' and certificateAuthorityData '' @ ''TkVXQ...2Nzg5'')
           # snd (updateUser1 exQuote (targetUser1 exStage1 2) exPastedUser1 exStage1)"
    by blast+
  from t h3 have v2c:
    "updateCluster2 exQuote True False ''stage-cluster'' (Some exPastedCluster2) exStage2
       = Inr (exStage2\<lparr>cfg_Clusters :=
                         (cfg_Clusters exStage2)(''stage-cluster'' \<mapsto> exPastedCluster2)\<rparr>,
              [''Added cluster '' @ exQuote ''stage-cluster'' @ '' with server ''
                 @ ''https://new.example:6443'' @ '' and CA data '' @ ''TkVXQ...BMTIz''])"
    by blast
  show ?thesis
    using h1 h2 h3 h4 v1 v1m v2c v2 by (simp add: s5)
qed

subsection \<open>Unfolding a run at a concrete environment\<close>

lemmas io_defs = io_bind_def ret_def die_def panic_def prompt_def emit_def writeFile_def

lemmas step_defs1 = main1_def prepare1_def expandPath_def readConfig_def parseConfig1_def
  selectTarget1_def askUpdateServer1_def pasteConfig1_def resolveCluster1_def
  setTargetCluster1_def resolveContext1_def resolveUser1_def marshal1_def report_def
  writer1_def merge1_def updateCluster1_def updateUser1_def clusterBody1_def userBody1_def
  targetCluster1_def targetUser1_def

lemmas step_defs2 = main2_def prepare2_def expandPath_def readConfig_def parseConfig2_def
  selectTarget2_def targetContext2_def askUpdateServer2_def pasteConfig2_def
  resolveCluster2_def resolveContext2_def resolveUser2_def report_def writer2_def
  merge2_def updateCluster2_def updateUser2_def rangeMap_def

lemmas ex_defs = exEnv1_def exEnv2_def exDisk1_def exDisk2_def exPasted1_def exPasted2_def
  exPastedCluster1_def exPastedCluster2_def exPastedUser1_def exPastedUser2_def
  exMarshal1_def exWrite2_def exNow_def exOrphan1_def exOrphan2_def exOrphanEnv1_def
  exOrphanEnv2_def exNewEnv1_def exNewEnv2_def exStage1_def exStage2_def
  exTryEnv1_def exTryEnv2_def exMerged1_def exMerged2_def

subsection \<open>C8: the report and the order of its entries\<close>

lemma report_lines:
  "printed (fst (report changes))
     = (''Summary of changes:'' @ nl)
         # (if changes = [] then [''No changes made.'' @ nl]
            else map (\<lambda>change. ''- '' @ change @ nl) changes)"
  by (simp add: report_def printed_map_Stdout)

lemma report_no_changes:
  "(''No changes made.'' @ nl) \<in> set (printed (fst (report changes))) \<longleftrightarrow> changes = []"
  by (auto simp: report_lines)

lemma userBody1_changes:
  "snd (userBody1 q p u)
     = (if Token (nu_User u) \<noteq> Token p
        then [msgUserToken1 q (nu_Name u) (Token (nu_User u)) (Token p)] else [])
       @ (if ClientCertificateData (nu_User u) \<noteq> ClientCertificateData p
          then [msgUserCert1 q (nu_Name u) (ClientCertificateData (nu_User u))
                  (ClientCertificateData p)] else [])
       @ (if ClientKeyData (nu_User u) \<noteq> ClientKeyData p
          then [msgUserKey1 q (nu_Name u) (ClientKeyData (nu_User u)) (ClientKeyData p)]
          else [])"
  by (simp add: userBody1_def Let_def)

lemma clusterBody1_changes:
  "snd (clusterBody1 q upd p c)
     = (if CertificateAuthorityData (nc_Cluster c) \<noteq> CertificateAuthorityData p
        then [msgClusterCA1 q (nc_Name c) (CertificateAuthorityData (nc_Cluster c))
                (CertificateAuthorityData p)] else [])
       @ (if upd \<and> Server (nc_Cluster c) \<noteq> Server p
          then [msgClusterServer1 q (nc_Name c) (Server (nc_Cluster c)) (Server p)] else [])"
  by (simp add: clusterBody1_def Let_def)

lemma updateCluster1_changes:
  "snd (updateCluster1 q nc us tc pc cfg)
     = (case find (\<lambda>c. nc_Name c = tc) (Clusters cfg) of
          None \<Rightarrow> [msgClusterAdded1 q tc (nc_Cluster pc)]
        | Some c \<Rightarrow>
            (if CertificateAuthorityData (nc_Cluster c)
                  \<noteq> CertificateAuthorityData (nc_Cluster pc)
             then [msgClusterCA1 q tc (CertificateAuthorityData (nc_Cluster c))
                     (CertificateAuthorityData (nc_Cluster pc))] else [])
            @ (if (nc \<or> us) \<and> Server (nc_Cluster c) \<noteq> Server (nc_Cluster pc)
               then [msgClusterServer1 q tc (Server (nc_Cluster c)) (Server (nc_Cluster pc))]
               else []))"
proof (cases "find (\<lambda>c. nc_Name c = tc) (Clusters cfg)")
  case None
  then show ?thesis by (simp add: updateCluster1_absent)
next
  case (Some c)
  with find_Some_name [OF Some] show ?thesis
    by (simp add: updateCluster1_present clusterBody1_changes)
qed

lemma updateUser1_changes:
  "snd (updateUser1 q tu pu cfg)
     = (case find (\<lambda>u. nu_Name u = tu) (Users cfg) of
          None \<Rightarrow> [msgUserAdded1 q tu (nu_User pu)]
        | Some u \<Rightarrow>
            (if Token (nu_User u) \<noteq> Token (nu_User pu)
             then [msgUserToken1 q tu (Token (nu_User u)) (Token (nu_User pu))] else [])
            @ (if ClientCertificateData (nu_User u) \<noteq> ClientCertificateData (nu_User pu)
               then [msgUserCert1 q tu (ClientCertificateData (nu_User u))
                       (ClientCertificateData (nu_User pu))] else [])
            @ (if ClientKeyData (nu_User u) \<noteq> ClientKeyData (nu_User pu)
               then [msgUserKey1 q tu (ClientKeyData (nu_User u))
                       (ClientKeyData (nu_User pu))] else []))"
proof (cases "find (\<lambda>u. nu_Name u = tu) (Users cfg)")
  case None
  then show ?thesis by (simp add: updateUser1_absent)
next
  case (Some u)
  with find_Some_uname [OF Some] show ?thesis
    by (simp add: updateUser1_present userBody1_changes)
qed

lemma updateCluster2_changes:
  "\<exists>cfg'. updateCluster2 q nc us tc (Some pc) cfg
     = Inr (cfg',
         (case cfg_Clusters cfg tc of
            None \<Rightarrow> [msgClusterAdded2 q tc pc]
          | Some c \<Rightarrow>
              (if (us \<or> nc) \<and> api_Server c \<noteq> api_Server pc
               then [msgClusterServer2 q tc (api_Server c) (api_Server pc)] else [])
              @ (if api_CertificateAuthorityData c \<noteq> api_CertificateAuthorityData pc
                 then [msgClusterCA2 q tc (api_CertificateAuthorityData c)
                         (api_CertificateAuthorityData pc)] else [])))"
  by (cases "cfg_Clusters cfg tc") (simp_all add: updateCluster2_def Let_def)

lemma updateUser2_changes:
  "\<exists>cfg'. updateUser2 q tu (Some pu) cfg
     = Inr (cfg',
         (case cfg_AuthInfos cfg tu of
            None \<Rightarrow> [msgUserAdded2 q tu pu]
          | Some u \<Rightarrow>
              (if api_Token u \<noteq> api_Token pu
               then [msgUserToken2 q tu (api_Token u) (api_Token pu)] else [])
              @ (if api_ClientCertificateData u \<noteq> api_ClientCertificateData pu
                 then [msgUserCert2 q tu (api_ClientCertificateData u)
                         (api_ClientCertificateData pu)] else [])
              @ (if api_ClientKeyData u \<noteq> api_ClientKeyData pu
                 then [msgUserKey2 q tu (api_ClientKeyData u) (api_ClientKeyData pu)]
                 else [])))"
  by (cases "cfg_AuthInfos cfg tu") (simp_all add: updateUser2_def Let_def)

text \<open>
  Claim C8, as the two programs have it. The Change Reporter prints the line
  \<open>No changes made.\<close> exactly when the sequence of change entries is empty, and otherwise
  one line per entry, prefixed with \<open>- \<close>, in the order of the sequence. The merge
  produces the entries of the cluster step before those of the user step; the user
  step reports token, then client certificate, then client key (or the single entry
  for an added user). Within the cluster step the first program reports CA data before
  server, and the second program reports server before CA data.
\<close>

theorem report_order:
  "printed (fst (report changes))
     = (''Summary of changes:'' @ nl)
         # (if changes = [] then [''No changes made.'' @ nl]
            else map (\<lambda>change. ''- '' @ change @ nl) changes)
   \<and> ((''No changes made.'' @ nl) \<in> set (printed (fst (report changes))) \<longleftrightarrow> changes = [])
   \<and> snd (merge1 q nc us ti pc pu cfg)
       = (case find (\<lambda>c. nc_Name c = targetCluster1 cfg ti) (Clusters cfg) of
            None \<Rightarrow> [msgClusterAdded1 q (targetCluster1 cfg ti) (nc_Cluster pc)]
          | Some c \<Rightarrow>
              (if CertificateAuthorityData (nc_Cluster c)
                    \<noteq> CertificateAuthorityData (nc_Cluster pc)
               then [msgClusterCA1 q (targetCluster1 cfg ti)
                       (CertificateAuthorityData (nc_Cluster c))
                       (CertificateAuthorityData (nc_Cluster pc))] else [])
              @ (if (nc \<or> us) \<and> Server (nc_Cluster c) \<noteq> Server (nc_Cluster pc)
                 then [msgClusterServer1 q (targetCluster1 cfg ti) (Server (nc_Cluster c))
                         (Server (nc_Cluster pc))]
                 else []))
         @ (case find (\<lambda>u. nu_Name u = targetUser1 cfg ti) (Users cfg) of
              None \<Rightarrow> [msgUserAdded1 q (targetUser1 cfg ti) (nu_User pu)]
            | Some u \<Rightarrow>
                (if Token (nu_User u) \<noteq> Token (nu_User pu)
                 then [msgUserToken1 q (targetUser1 cfg ti) (Token (nu_User u))
                         (Token (nu_User pu))] else [])
                @ (if ClientCertificateData (nu_User u) \<noteq> ClientCertificateData (nu_User pu)
                   then [msgUserCert1 q (targetUser1 cfg ti) (ClientCertificateData (nu_User u))
                           (ClientCertificateData (nu_User pu))] else [])
                @ (if ClientKeyData (nu_User u) \<noteq> ClientKeyData (nu_User pu)
                   then [msgUserKey1 q (targetUser1 cfg ti) (ClientKeyData (nu_User u))
                           (ClientKeyData (nu_User pu))] else []))
   \<and> (cfg_Contexts cfg2 tname = Some tctx \<longrightarrow>
        (\<exists>cfg'. merge2 q nc us tname tc (Some pc2) (Some pu2) cfg2
           = Inr (cfg',
               (case cfg_Clusters cfg2 tc of
                  None \<Rightarrow> [msgClusterAdded2 q tc pc2]
                | Some c \<Rightarrow>
                    (if (us \<or> nc) \<and> api_Server c \<noteq> api_Server pc2
                     then [msgClusterServer2 q tc (api_Server c) (api_Server pc2)] else [])
                    @ (if api_CertificateAuthorityData c \<noteq> api_CertificateAuthorityData pc2
                       then [msgClusterCA2 q tc (api_CertificateAuthorityData c)
                               (api_CertificateAuthorityData pc2)] else []))
               @ (case cfg_AuthInfos cfg2 (ac_AuthInfo tctx) of
                    None \<Rightarrow> [msgUserAdded2 q (ac_AuthInfo tctx) pu2]
                  | Some u \<Rightarrow>
                      (if api_Token u \<noteq> api_Token pu2
                       then [msgUserToken2 q (ac_AuthInfo tctx) (api_Token u) (api_Token pu2)]
                       else [])
                      @ (if api_ClientCertificateData u \<noteq> api_ClientCertificateData pu2
                         then [msgUserCert2 q (ac_AuthInfo tctx) (api_ClientCertificateData u)
                                 (api_ClientCertificateData pu2)] else [])
                      @ (if api_ClientKeyData u \<noteq> api_ClientKeyData pu2
                         then [msgUserKey2 q (ac_AuthInfo tctx) (api_ClientKeyData u)
                                 (api_ClientKeyData pu2)]
                         else [])))))"
proof (intro conjI impI)
  show "printed (fst (report changes))
     = (''Summary of changes:'' @ nl)
         # (if changes = [] then [''No changes made.'' @ nl]
            else map (\<lambda>change. ''- '' @ change @ nl) changes)"
    by (rule report_lines)
  show "(''No changes made.'' @ nl) \<in> set (printed (fst (report changes))) \<longleftrightarrow> changes = []"
    by (rule report_no_changes)
  show "snd (merge1 q nc us ti pc pu cfg)
       = (case find (\<lambda>c. nc_Name c = targetCluster1 cfg ti) (Clusters cfg) of
            None \<Rightarrow> [msgClusterAdded1 q (targetCluster1 cfg ti) (nc_Cluster pc)]
          | Some c \<Rightarrow>
              (if CertificateAuthorityData (nc_Cluster c)
                    \<noteq> CertificateAuthorityData (nc_Cluster pc)
               then [msgClusterCA1 q (targetCluster1 cfg ti)
                       (CertificateAuthorityData (nc_Cluster c))
                       (CertificateAuthorityData (nc_Cluster pc))] else [])
              @ (if (nc \<or> us) \<and> Server (nc_Cluster c) \<noteq> Server (nc_Cluster pc)
                 then [msgClusterServer1 q (targetCluster1 cfg ti) (Server (nc_Cluster c))
                         (Server (nc_Cluster pc))]
                 else []))
         @ (case find (\<lambda>u. nu_Name u = targetUser1 cfg ti) (Users cfg) of
              None \<Rightarrow> [msgUserAdded1 q (targetUser1 cfg ti) (nu_User pu)]
            | Some u \<Rightarrow>
                (if Token (nu_User u) \<noteq> Token (nu_User pu)
                 then [msgUserToken1 q (targetUser1 cfg ti) (Token (nu_User u))
                         (Token (nu_User pu))] else [])
                @ (if ClientCertificateData (nu_User u) \<noteq> ClientCertificateData (nu_User pu)
                   then [msgUserCert1 q (targetUser1 cfg ti) (ClientCertificateData (nu_User u))
                           (ClientCertificateData (nu_User pu))] else [])
                @ (if ClientKeyData (nu_User u) \<noteq> ClientKeyData (nu_User pu)
                   then [msgUserKey1 q (targetUser1 cfg ti) (ClientKeyData (nu_User u))
                           (ClientKeyData (nu_User pu))] else []))"
    by (simp only: merge1_steps snd_conv updateCluster1_changes updateUser1_changes)
next
  assume t: "cfg_Contexts cfg2 tname = Some tctx"
  from updateCluster2_changes [of q nc us tc pc2 cfg2] obtain cfg1 where
    a: "updateCluster2 q nc us tc (Some pc2) cfg2
     = Inr (cfg1,
         (case cfg_Clusters cfg2 tc of
            None \<Rightarrow> [msgClusterAdded2 q tc pc2]
          | Some c \<Rightarrow>
              (if (us \<or> nc) \<and> api_Server c \<noteq> api_Server pc2
               then [msgClusterServer2 q tc (api_Server c) (api_Server pc2)] else [])
              @ (if api_CertificateAuthorityData c \<noteq> api_CertificateAuthorityData pc2
                 then [msgClusterCA2 q tc (api_CertificateAuthorityData c)
                         (api_CertificateAuthorityData pc2)] else [])))"
    by blast
  note fa = updateCluster2_frame [OF a]
  from fa t have b: "cfg_Contexts cfg1 tname = Some tctx" by simp
  from fa have u: "cfg_AuthInfos cfg1 = cfg_AuthInfos cfg2" by simp
  from updateUser2_changes [of q "ac_AuthInfo tctx" pu2 cfg1] u obtain cfg' where
    c: "updateUser2 q (ac_AuthInfo tctx) (Some pu2) cfg1
     = Inr (cfg',
         (case cfg_AuthInfos cfg2 (ac_AuthInfo tctx) of
            None \<Rightarrow> [msgUserAdded2 q (ac_AuthInfo tctx) pu2]
          | Some u \<Rightarrow>
              (if api_Token u \<noteq> api_Token pu2
               then [msgUserToken2 q (ac_AuthInfo tctx) (api_Token u) (api_Token pu2)] else [])
              @ (if api_ClientCertificateData u \<noteq> api_ClientCertificateData pu2
                 then [msgUserCert2 q (ac_AuthInfo tctx) (api_ClientCertificateData u)
                         (api_ClientCertificateData pu2)] else [])
              @ (if api_ClientKeyData u \<noteq> api_ClientKeyData pu2
                 then [msgUserKey2 q (ac_AuthInfo tctx) (api_ClientKeyData u)
                         (api_ClientKeyData pu2)]
                 else [])))"
    by auto
  from a b c show "\<exists>cfg'. merge2 q nc us tname tc (Some pc2) (Some pu2) cfg2
           = Inr (cfg',
               (case cfg_Clusters cfg2 tc of
                  None \<Rightarrow> [msgClusterAdded2 q tc pc2]
                | Some c \<Rightarrow>
                    (if (us \<or> nc) \<and> api_Server c \<noteq> api_Server pc2
                     then [msgClusterServer2 q tc (api_Server c) (api_Server pc2)] else [])
                    @ (if api_CertificateAuthorityData c \<noteq> api_CertificateAuthorityData pc2
                       then [msgClusterCA2 q tc (api_CertificateAuthorityData c)
                               (api_CertificateAuthorityData pc2)] else []))
               @ (case cfg_AuthInfos cfg2 (ac_AuthInfo tctx) of
                    None \<Rightarrow> [msgUserAdded2 q (ac_AuthInfo tctx) pu2]
                  | Some u \<Rightarrow>
                      (if api_Token u \<noteq> api_Token pu2
                       then [msgUserToken2 q (ac_AuthInfo tctx) (api_Token u) (api_Token pu2)]
                       else [])
                      @ (if api_ClientCertificateData u \<noteq> api_ClientCertificateData pu2
                         then [msgUserCert2 q (ac_AuthInfo tctx) (api_ClientCertificateData u)
                                 (api_ClientCertificateData pu2)] else [])
                      @ (if api_ClientKeyData u \<noteq> api_ClientKeyData pu2
                         then [msgUserKey2 q (ac_AuthInfo tctx) (api_ClientKeyData u)
                                 (api_ClientKeyData pu2)]
                         else [])))"
    by (simp add: merge2_def)
qed

text \<open>
  The claim as stated puts CA data before server. A run of the second program on the
  example documents, with \<^verbatim>\<open>updateServer\<close> answered yes, prints the server entry first
  and the CA entry second.
\<close>

theorem report_order_counterexample:
  "printed (fst (main2 exEnv2))
     = [''Summary of changes:'' @ nl,
        ''- '' @ msgClusterServer2 exQuote ''prod-cluster'' ''https://old.example:6443''
                  ''https://new.example:6443'' @ nl,
        ''- '' @ msgClusterCA2 exQuote ''prod-cluster'' [] ''NEWCADATA123'' @ nl,
        ''- '' @ msgUserToken2 exQuote ''prod-user'' ''tok-old-aaaa'' ''tok-new-bbbb'' @ nl,
        ''Backup saved to /k/config.backup.2025-01-02T03:04:05Z'' @ nl,
        ''Successfully updated /k/config'' @ nl]"
  by (simp add: step_defs2 io_defs ex_defs Let_def Format_RFC3339_def pad_def digit_def)

text \<open>C8 at the example documents, for the empty sequence and for both merges.\<close>

theorem report_order_witness:
  "cfg_Contexts exDisk2 ''prod''
     = Some \<lparr>ac_Cluster = ''prod-cluster'', ac_AuthInfo = ''prod-user''\<rparr>
   \<and> printed (fst (report [])) = [''Summary of changes:'' @ nl, ''No changes made.'' @ nl]
   \<and> (''No changes made.'' @ nl) \<in> set (printed (fst (report [])))
   \<and> snd (merge1 exQuote False True 0 exPastedCluster1 exPastedUser1 exDisk1)
       = [msgClusterCA1 exQuote ''prod-cluster'' [] ''TkVXQ0FEQVRBMTIzNDU2Nzg5'',
          msgClusterServer1 exQuote ''prod-cluster'' ''https://old.example:6443''
            ''https://new.example:6443'',
          msgUserToken1 exQuote ''prod-user'' ''tok-old-aaaa'' ''tok-new-bbbb'']
   \<and> (\<exists>cfg'. merge2 exQuote False True ''prod'' ''prod-cluster''
                 (Some exPastedCluster2) (Some exPastedUser2) exDisk2
         = Inr (cfg',
             [msgClusterServer2 exQuote ''prod-cluster'' ''https://old.example:6443''
                ''https://new.example:6443'',
              msgClusterCA2 exQuote ''prod-cluster'' [] ''NEWCADATA123'',
              msgUserToken2 exQuote ''prod-user'' ''tok-old-aaaa'' ''tok-new-bbbb'']))"
proof -
  have h: "cfg_Contexts exDisk2 ''prod''
     = Some \<lparr>ac_Cluster = ''prod-cluster'', ac_AuthInfo = ''prod-user''\<rparr>"
    by (simp add: exDisk2_def)
  note t = report_order [where changes = "[]" and q = exQuote and nc = False and us = True
      and ti = 0 and pc = exPastedCluster1 and pu = exPastedUser1 and cfg = exDisk1
      and ?cfg2.0 = exDisk2 and tname = "''prod''" and tc = "''prod-cluster''"
      and tctx = "\<lparr>ac_Cluster = ''prod-cluster'', ac_AuthInfo = ''prod-user''\<rparr>"
      and ?pc2.0 = exPastedCluster2 and ?pu2.0 = exPastedUser2]
  show ?thesis
    using h t
    by (simp add: targetCluster1_def targetUser1_def exDisk1_def exDisk2_def exPastedCluster1_def exPastedUser1_def
        exPastedCluster2_def exPastedUser2_def)
qed

subsection \<open>C9: no pasted context uses the pasted cluster\<close>

lemma find_None_iff_all: "find P xs = None \<longleftrightarrow> (\<forall>x\<in>set xs. \<not> P x)"
  by (induction xs) auto

lemma rangeMap_lookup: "(k, v) \<in> set (rangeMap ks m) \<Longrightarrow> m k = Some v"
  by (induction ks) (auto simp: rangeMap_def split: option.splits)

lemma locate_Some:
  "locate s ctxs = Some i \<Longrightarrow> i < length ctxs \<and> nx_Name (ctxs ! i) = s"
proof (induction ctxs arbitrary: i)
  case Nil
  then show ?case by simp
next
  case (Cons c ctxs)
  show ?case
  proof (cases "nx_Name c = s")
    case True
    with Cons.prems show ?thesis by simp
  next
    case False
    with Cons.prems obtain j where "locate s ctxs = Some j" "i = Suc j" by auto
    with Cons.IH show ?thesis by simp
  qed
qed

text \<open>
  Claim C9. If no context of the pasted document has a cluster reference equal to the
  name of the resolved pasted cluster, the step that looks for the pasted context ends
  the run: it prints the message that no context references the cluster on the error
  stream and exits with status 1 (the specification's \<^verbatim>\<open>ResolutionError\<close>). The list of
  the fallback prompt is empty, and the step shows no prompt: its only event is the
  error message.
\<close>

theorem no_context_for_cluster:
  "((\<forall>ctx\<in>set (Contexts newCfg). ctx_Cluster (nx_Context ctx) \<noteq> nc_Name pastedCluster) \<longrightarrow>
      resolveContext1 e1 newCfg pastedCluster
        = ([Stderr (''Error: no context in pasted kubeconfig references cluster ''
                      @ fmtQ e1 (nc_Name pastedCluster) @ nl)],
           Inl (Exit 1)))
   \<and> ((\<forall>name ctx. cfg_Contexts newCfg2 name = Some ctx \<longrightarrow> ac_Cluster ctx \<noteq> targetClusterName) \<longrightarrow>
        resolveContext2 e2 newCfg2 targetClusterName
          = ([Stderr (''No contexts for cluster '' @ targetClusterName
                        @ '' in pasted config'' @ nl)],
             Inl (Exit 1)))"
proof (intro conjI impI)
  assume a: "\<forall>ctx\<in>set (Contexts newCfg). ctx_Cluster (nx_Context ctx) \<noteq> nc_Name pastedCluster"
  then have f: "find (\<lambda>ctx. ctx_Cluster (nx_Context ctx) = nc_Name pastedCluster)
                  (Contexts newCfg) = None"
    by (simp add: find_None_iff_all)
  from a have g: "filter (\<lambda>ctx. ctx_Cluster (nx_Context ctx) = nc_Name pastedCluster)
                    (Contexts newCfg) = []"
    by (simp add: filter_empty_conv)
  from f g show "resolveContext1 e1 newCfg pastedCluster
        = ([Stderr (''Error: no context in pasted kubeconfig references cluster ''
                      @ fmtQ e1 (nc_Name pastedCluster) @ nl)],
           Inl (Exit 1))"
    by (simp add: resolveContext1_def die_def)
next
  assume a: "\<forall>name ctx. cfg_Contexts newCfg2 name = Some ctx \<longrightarrow> ac_Cluster ctx \<noteq> targetClusterName"
  have n: "\<And>ks. \<forall>x\<in>set (rangeMap ks (cfg_Contexts newCfg2)).
               \<not> (case x of (name, ctx) \<Rightarrow> ac_Cluster ctx = targetClusterName)"
    using a by (auto dest: rangeMap_lookup)
  have f: "find (\<lambda>(name, ctx). ac_Cluster ctx = targetClusterName)
             (rangeMap (mapOrder e2 635) (cfg_Contexts newCfg2)) = None"
    using n [of "mapOrder e2 635"] by (simp add: find_None_iff_all)
  have g: "filter (\<lambda>(name, ctx). ac_Cluster ctx = targetClusterName)
             (rangeMap (mapOrder e2 643) (cfg_Contexts newCfg2)) = []"
    using n [of "mapOrder e2 643"] by (simp add: filter_empty_conv)
  from f g show "resolveContext2 e2 newCfg2 targetClusterName
          = ([Stderr (''No contexts for cluster '' @ targetClusterName
                        @ '' in pasted config'' @ nl)],
             Inl (Exit 1))"
    by (simp add: resolveContext2_def die_def)
qed

text \<open>
  C9 at pasted documents whose only context uses \<open>dev-cluster\<close>; the whole run of
  either program ends with status 1 there.
\<close>

theorem no_context_for_cluster_witness:
  "filter (\<lambda>ctx. ctx_Cluster (nx_Context ctx) = ''prod-cluster'') (Contexts exOrphan1) = []
   \<and> resolveContext1 exOrphanEnv1 exOrphan1 exPastedCluster1
       = ([Stderr (''Error: no context in pasted kubeconfig references cluster ''
                     @ exQuote ''prod-cluster'' @ nl)],
          Inl (Exit 1))
   \<and> resolveContext2 exOrphanEnv2 exOrphan2 ''prod-cluster''
       = ([Stderr (''No contexts for cluster prod-cluster in pasted config'' @ nl)],
          Inl (Exit 1))
   \<and> exitCode (snd (main1 exOrphanEnv1)) = 1
   \<and> exitCode (snd (main2 exOrphanEnv2)) = 1"
proof -
  have h1: "\<forall>ctx\<in>set (Contexts exOrphan1).
              ctx_Cluster (nx_Context ctx) \<noteq> nc_Name exPastedCluster1"
    by (simp add: exOrphan1_def exPastedCluster1_def)
  have h2: "\<forall>name ctx. cfg_Contexts exOrphan2 name = Some ctx
              \<longrightarrow> ac_Cluster ctx \<noteq> ''prod-cluster''"
    by (auto simp: exOrphan2_def split: if_splits)
  note t = no_context_for_cluster [where ?e1.0 = exOrphanEnv1 and ?e2.0 = exOrphanEnv2
      and newCfg = exOrphan1 and pastedCluster = exPastedCluster1
      and ?newCfg2.0 = exOrphan2 and targetClusterName = "''prod-cluster''"]
  have q1: "fmtQ exOrphanEnv1 = exQuote" by (simp add: exOrphanEnv1_def exEnv1_def)
  have n1: "nc_Name exPastedCluster1 = ''prod-cluster''" by (simp add: exPastedCluster1_def)
  from t h1 h2 q1 n1 have s:
    "resolveContext1 exOrphanEnv1 exOrphan1 exPastedCluster1
       = ([Stderr (''Error: no context in pasted kubeconfig references cluster ''
                     @ exQuote ''prod-cluster'' @ nl)],
          Inl (Exit 1))"
    "resolveContext2 exOrphanEnv2 exOrphan2 ''prod-cluster''
       = ([Stderr (''No contexts for cluster prod-cluster in pasted config'' @ nl)],
          Inl (Exit 1))"
    by simp_all
  have m1: "exitCode (snd (main1 exOrphanEnv1)) = 1"
    by (simp add: step_defs1 io_defs ex_defs Let_def)
  have m2: "exitCode (snd (main2 exOrphanEnv2)) = 1"
    by (simp add: step_defs2 io_defs ex_defs Let_def)
  show ?thesis using s m1 m2 by (simp add: exOrphan1_def exPasted1_def)
qed

subsection \<open>C10: the option \<open>new context\<close> shadows a context of that name\<close>

text \<open>
  The index that stands for the pointer \<^verbatim>\<open>targetContext\<close> is always inside
  \<^verbatim>\<open>origCfg.Contexts\<close>, also after the rename of line 239: no read through the pointer
  is out of range.
\<close>

lemma selectTarget1_index:
  assumes "selectTarget1 e cfg = (es, Inr (cfg', ti, nc))"
  shows "ti < length (Contexts cfg')"
proof (cases "ansSelectContext e")
  case (Inl err)
  with assms show ?thesis by (simp add: selectTarget1_def io_defs Let_def)
next
  case (Inr s)
  show ?thesis
  proof (cases "s = ''new context''")
    case True
    with assms Inr show ?thesis
      by (auto simp: selectTarget1_def io_defs Let_def split: sum.splits prod.splits)
  next
    case False
    with assms Inr have "locate s (Contexts cfg) = Some ti" "cfg' = cfg"
      by (auto simp: selectTarget1_def io_defs Let_def split: option.splits)
    with locate_Some [of s "Contexts cfg" ti] show ?thesis by simp
  qed
qed

lemma resolveCluster1_index:
  assumes "resolveCluster1 e cfg ti newCfg = (es, Inr (cfg', pc))"
  shows "length (Contexts cfg') = length (Contexts cfg)"
  using assms
  by (auto simp: resolveCluster1_def setTargetCluster1_def io_defs Let_def
      split: option.splits sum.splits)

text \<open>
  Claim C10. Whatever the on-disk document holds, also a context that is literally
  named \<open>new context\<close>: when the answer to the first prompt is \<open>new context\<close>, the
  program takes the new-context path. It shows the form that asks for the new context,
  cluster and user names and makes the target a context built from these names (the
  first program appends it, the second program stores it under the typed name), with
  \<^verbatim>\<open>newContext\<close> true. Conversely, whenever the step returns with \<^verbatim>\<open>newContext\<close> false,
  the answer was not \<open>new context\<close> and the target is an existing context with another
  name: the existing context \<open>new context\<close> is never the target of an update.
\<close>

theorem new_context_shadows:
  "(ansSelectContext ea = Inr ''new context'' \<longrightarrow>
      selectTarget1 ea cfg
        = (case ansNewContext ea of
             Inl err \<Rightarrow>
               ([Select ''Select a context to update''
                   (map nx_Name (Contexts cfg) @ [''new context'']),
                 Input [''Enter new context name'', ''Enter new cluster name'',
                        ''Enter new user name''],
                 Stderr (''Error getting new context details: '' @ err @ nl)],
                Inl (Exit 1))
           | Inr (newCtxName, newClusterName, newUserName) \<Rightarrow>
               ([Select ''Select a context to update''
                   (map nx_Name (Contexts cfg) @ [''new context'']),
                 Input [''Enter new context name'', ''Enter new cluster name'',
                        ''Enter new user name'']],
                Inr (cfg\<lparr>Contexts := Contexts cfg
                       @ [\<lparr>nx_Name = newCtxName,
                           nx_Context = \<lparr>ctx_Cluster = newClusterName,
                                          ctx_User = newUserName\<rparr>\<rparr>]\<rparr>,
                     length (Contexts cfg), True))))
   \<and> (selectTarget1 eb cfg = (es, Inr (cfg', ti, False)) \<longrightarrow>
        ansSelectContext eb \<noteq> Inr ''new context'' \<and> cfg' = cfg
        \<and> ti < length (Contexts cfg) \<and> nx_Name (Contexts cfg ! ti) \<noteq> ''new context'')
   \<and> (ansSelectContext ec = Inr ''new context'' \<longrightarrow>
        selectTarget2 ec cfg2
          = (case ansNewContext ec of
               Inl err \<Rightarrow>
                 ([Select ''Select a context to update''
                     (map fst (rangeMap (mapOrder ec 513) (cfg_Contexts cfg2))
                        @ [''new context'']),
                   Input [''Enter new context name'', ''Enter new cluster name'',
                          ''Enter new user name''],
                   Stderr (''Error getting new context details: '' @ err @ nl)],
                  Inl (Exit 1))
             | Inr (newCtxName, newClusterName, newUserName) \<Rightarrow>
                 ([Select ''Select a context to update''
                     (map fst (rangeMap (mapOrder ec 513) (cfg_Contexts cfg2))
                        @ [''new context'']),
                   Input [''Enter new context name'', ''Enter new cluster name'',
                          ''Enter new user name'']],
                  Inr (cfg2\<lparr>cfg_Contexts := (cfg_Contexts cfg2)
                         (newCtxName \<mapsto> \<lparr>ac_Cluster = newClusterName,
                                          ac_AuthInfo = newUserName\<rparr>)\<rparr>,
                       newCtxName, True))))
   \<and> (selectTarget2 ed cfg2 = (es2, Inr (cfg2', tname, False)) \<longrightarrow>
        ansSelectContext ed \<noteq> Inr ''new context'' \<and> cfg2' = cfg2
        \<and> cfg_Contexts cfg2 tname \<noteq> None \<and> tname \<noteq> ''new context'')"
proof (intro conjI impI)
  assume "ansSelectContext ea = Inr ''new context''"
  then show "selectTarget1 ea cfg
        = (case ansNewContext ea of
             Inl err \<Rightarrow>
               ([Select ''Select a context to update''
                   (map nx_Name (Contexts cfg) @ [''new context'']),
                 Input [''Enter new context name'', ''Enter new cluster name'',
                        ''Enter new user name''],
                 Stderr (''Error getting new context details: '' @ err @ nl)],
                Inl (Exit 1))
           | Inr (newCtxName, newClusterName, newUserName) \<Rightarrow>
               ([Select ''Select a context to update''
                   (map nx_Name (Contexts cfg) @ [''new context'']),
                 Input [''Enter new context name'', ''Enter new cluster name'',
                        ''Enter new user name'']],
                Inr (cfg\<lparr>Contexts := Contexts cfg
                       @ [\<lparr>nx_Name = newCtxName,
                           nx_Context = \<lparr>ctx_Cluster = newClusterName,
                                          ctx_User = newUserName\<rparr>\<rparr>]\<rparr>,
                     length (Contexts cfg), True)))"
    by (simp add: selectTarget1_def io_defs Let_def split: sum.splits prod.splits)
next
  assume a: "selectTarget1 eb cfg = (es, Inr (cfg', ti, False))"
  then have n: "ansSelectContext eb \<noteq> Inr ''new context''"
    by (auto simp: selectTarget1_def io_defs Let_def split: sum.splits prod.splits)
  with a obtain s where s: "ansSelectContext eb = Inr s" "s \<noteq> ''new context''"
    by (cases "ansSelectContext eb") (auto simp: selectTarget1_def io_defs Let_def)
  with a have l: "locate s (Contexts cfg) = Some ti" and c: "cfg' = cfg"
    by (auto simp: selectTarget1_def io_defs Let_def split: option.splits)
  from locate_Some [OF l] s n c
  show "ansSelectContext eb \<noteq> Inr ''new context''" "cfg' = cfg" "ti < length (Contexts cfg)"
    "nx_Name (Contexts cfg ! ti) \<noteq> ''new context''"
    by simp_all
next
  assume "ansSelectContext ec = Inr ''new context''"
  then show "selectTarget2 ec cfg2
          = (case ansNewContext ec of
               Inl err \<Rightarrow>
                 ([Select ''Select a context to update''
                     (map fst (rangeMap (mapOrder ec 513) (cfg_Contexts cfg2))
                        @ [''new context'']),
                   Input [''Enter new context name'', ''Enter new cluster name'',
                          ''Enter new user name''],
                   Stderr (''Error getting new context details: '' @ err @ nl)],
                  Inl (Exit 1))
             | Inr (newCtxName, newClusterName, newUserName) \<Rightarrow>
                 ([Select ''Select a context to update''
                     (map fst (rangeMap (mapOrder ec 513) (cfg_Contexts cfg2))
                        @ [''new context'']),
                   Input [''Enter new context name'', ''Enter new cluster name'',
                          ''Enter new user name'']],
                  Inr (cfg2\<lparr>cfg_Contexts := (cfg_Contexts cfg2)
                         (newCtxName \<mapsto> \<lparr>ac_Cluster = newClusterName,
                                          ac_AuthInfo = newUserName\<rparr>)\<rparr>,
                       newCtxName, True)))"
    by (simp add: selectTarget2_def io_defs Let_def split: sum.splits prod.splits)
next
  assume a: "selectTarget2 ed cfg2 = (es2, Inr (cfg2', tname, False))"
  then have n: "ansSelectContext ed \<noteq> Inr ''new context''"
    by (auto simp: selectTarget2_def io_defs Let_def split: sum.splits prod.splits)
  with a obtain s where s: "ansSelectContext ed = Inr s" "s \<noteq> ''new context''"
    by (cases "ansSelectContext ed") (auto simp: selectTarget2_def io_defs Let_def)
  with a have "cfg_Contexts cfg2 s \<noteq> None" "cfg2' = cfg2" "tname = s"
    by (auto simp: selectTarget2_def io_defs Let_def split: option.splits)
  with s n
  show "ansSelectContext ed \<noteq> Inr ''new context''" "cfg2' = cfg2"
    "cfg_Contexts cfg2 tname \<noteq> None" "tname \<noteq> ''new context''"
    by simp_all
qed

text \<open>
  C10 at the example documents, which hold a context \<open>new context\<close> for \<open>dev-cluster\<close>:
  picking that name creates the context \<open>stage\<close> from the typed names; picking \<open>prod\<close>
  takes the existing context.
\<close>

theorem new_context_shadows_witness:
  "ansSelectContext exNewEnv1 = Inr ''new context''
   \<and> ''new context'' \<in> nx_Name ` set (Contexts exDisk1)
   \<and> selectTarget1 exNewEnv1 exDisk1
       = ([Select ''Select a context to update'' [''prod'', ''new context'', ''new context''],
           Input [''Enter new context name'', ''Enter new cluster name'',
                  ''Enter new user name'']],
          Inr (exStage1, 2, True))
   \<and> selectTarget1 exEnv1 exDisk1
       = ([Select ''Select a context to update'' [''prod'', ''new context'', ''new context'']],
          Inr (exDisk1, 0, False))
   \<and> nx_Name (Contexts exDisk1 ! 0) \<noteq> ''new context''
   \<and> ansSelectContext exNewEnv2 = Inr ''new context''
   \<and> cfg_Contexts exDisk2 ''new context''
       = Some \<lparr>ac_Cluster = ''dev-cluster'', ac_AuthInfo = ''dev-user''\<rparr>
   \<and> selectTarget2 exNewEnv2 exDisk2
       = ([Select ''Select a context to update'' [''prod'', ''new context'', ''new context''],
           Input [''Enter new context name'', ''Enter new cluster name'',
                  ''Enter new user name'']],
          Inr (exStage2, ''stage'', True))
   \<and> selectTarget2 exEnv2 exDisk2
       = ([Select ''Select a context to update'' [''prod'', ''new context'', ''new context'']],
          Inr (exDisk2, ''prod'', False))"
proof -
  have a1: "ansSelectContext exNewEnv1 = Inr ''new context''"
    by (simp add: exNewEnv1_def)
  have a2: "ansSelectContext exNewEnv2 = Inr ''new context''"
    by (simp add: exNewEnv2_def)
  have b1: "selectTarget1 exEnv1 exDisk1
       = ([Select ''Select a context to update'' [''prod'', ''new context'', ''new context'']],
          Inr (exDisk1, 0, False))"
    by (simp add: selectTarget1_def io_defs Let_def exEnv1_def exDisk1_def)
  have b2: "selectTarget2 exEnv2 exDisk2
       = ([Select ''Select a context to update'' [''prod'', ''new context'', ''new context'']],
          Inr (exDisk2, ''prod'', False))"
    by (simp add: selectTarget2_def io_defs Let_def exEnv2_def exDisk2_def rangeMap_def)
  note t = new_context_shadows [where ea = exNewEnv1 and eb = exEnv1 and cfg = exDisk1
      and es = "[Select ''Select a context to update''
                   [''prod'', ''new context'', ''new context'']]"
      and cfg' = exDisk1 and ti = 0
      and ec = exNewEnv2 and ed = exEnv2 and ?cfg2.0 = exDisk2
      and ?es2.0 = "[Select ''Select a context to update''
                       [''prod'', ''new context'', ''new context'']]"
      and cfg2' = exDisk2 and tname = "''prod''"]
  have c1: "''new context'' \<in> nx_Name ` set (Contexts exDisk1)"
    by (simp add: exDisk1_def)
  have c2: "cfg_Contexts exDisk2 ''new context''
       = Some \<lparr>ac_Cluster = ''dev-cluster'', ac_AuthInfo = ''dev-user''\<rparr>"
    by (simp add: exDisk2_def)
  have o1: "map nx_Name (Contexts exDisk1) = [''prod'', ''new context'']"
    by (simp add: exDisk1_def)
  have o2: "map fst (rangeMap (mapOrder exNewEnv2 513) (cfg_Contexts exDisk2))
              = [''prod'', ''new context'']"
    by (simp add: exNewEnv2_def exEnv2_def exDisk2_def rangeMap_def)
  have n1: "ansNewContext exNewEnv1 = Inr (''stage'', ''stage-cluster'', ''stage-user'')"
    by (simp add: exNewEnv1_def exEnv1_def)
  have n2: "ansNewContext exNewEnv2 = Inr (''stage'', ''stage-cluster'', ''stage-user'')"
    by (simp add: exNewEnv2_def exEnv2_def)
  have l1: "length (Contexts exDisk1) = 2" by (simp add: exDisk1_def)
  from t a1 b1 have s1:
    "selectTarget1 exNewEnv1 exDisk1
       = ([Select ''Select a context to update'' [''prod'', ''new context'', ''new context''],
           Input [''Enter new context name'', ''Enter new cluster name'',
                  ''Enter new user name'']],
          Inr (exStage1, 2, True))"
    "nx_Name (Contexts exDisk1 ! 0) \<noteq> ''new context''"
    by (simp_all add: o1 n1 l1 exStage1_def)
  from t a2 have s2:
    "selectTarget2 exNewEnv2 exDisk2
       = ([Select ''Select a context to update'' [''prod'', ''new context'', ''new context''],
           Input [''Enter new context name'', ''Enter new cluster name'',
                  ''Enter new user name'']],
          Inr (exStage2, ''stage'', True))"
    by (simp add: o2 n2 exStage2_def)
  from a1 c1 s1 b1 a2 c2 s2 b2 show ?thesis by blast
qed

subsection \<open>C4: the flag \<^verbatim>\<open>--try\<close>\<close>

lemma main1_reaches_writer:
  assumes "expandPath e = (es0, Inr cp)" and "readConfig e cp = (es1, Inr orig)"
      and "prepare1 e orig = (es2, Inr (changes, cfg'))" and "Marshal e cfg' = Inr out"
  shows "main1 e = (es0 @ es1 @ es2 @ fst (report changes) @ fst (writer1 e cp orig out),
                    snd (writer1 e cp orig out))"
  using assms
  by (simp add: main1_def io_bind_Inr marshal1_def ret_def report_def)

lemma main2_reaches_writer:
  assumes "expandPath e = (es0, Inr cp)" and "readConfig e cp = (es1, Inr orig)"
      and "prepare2 e orig = (es2, Inr (changes, cfg'))"
  shows "main2 e = (es0 @ es1 @ es2 @ fst (report changes) @ fst (writer2 e cp orig cfg'),
                    snd (writer2 e cp orig cfg'))"
  using assms
  by (simp add: main2_def io_bind_Inr report_def)

text \<open>
  Claim C4. With the flag \<^verbatim>\<open>--try\<close> no run of either program calls
  \<^verbatim>\<open>ioutil.WriteFile\<close>, however it ends: neither a backup nor the target path is
  written. When the steps before the Writer succeed and the merged document is
  serialized, the run prints the try-mode header and the serialized document to
  standard output as its last two outputs and returns from \<^verbatim>\<open>main\<close>, which is exit
  status 0.
\<close>

theorem try_mode:
  "(tryFlag e1 \<longrightarrow> writes (fst (main1 e1)) = [])
   \<and> (tryFlag e1 \<and> expandPath e1 = (es0, Inr cp) \<and> readConfig e1 cp = (es1, Inr orig)
        \<and> prepare1 e1 orig = (es2, Inr (changes, cfg')) \<and> Marshal e1 cfg' = Inr out \<longrightarrow>
        main1 e1
          = (es0 @ es1 @ es2 @ fst (report changes)
               @ [Stdout (nl @ ''---- Updated kubeconfig (try mode) ----'' @ nl),
                  Stdout (out @ nl)],
             Inr ())
        \<and> exitCode (snd (main1 e1)) = 0)
   \<and> (tryFlag e2 \<longrightarrow> writes (fst (main2 e2)) = [])
   \<and> (tryFlag e2 \<and> expandPath e2 = (fs0, Inr cp2) \<and> readConfig e2 cp2 = (fs1, Inr orig2)
        \<and> prepare2 e2 orig2 = (fs2, Inr (changes2, cfg2')) \<and> Write e2 cfg2' = Inr out2 \<longrightarrow>
        main2 e2
          = (fs0 @ fs1 @ fs2 @ fst (report changes2)
               @ [Stdout (nl @ ''---- Updated kubeconfig (try mode) ----'' @ nl),
                  Stdout (out2 @ nl)],
             Inr ())
        \<and> exitCode (snd (main2 e2)) = 0)"
proof (intro conjI impI)
  assume "tryFlag e1"
  then show "writes (fst (main1 e1)) = []" by (rule main1_try_nowrites)
next
  assume "tryFlag e2"
  then show "writes (fst (main2 e2)) = []" by (rule main2_try_nowrites)
next
  assume a: "tryFlag e1 \<and> expandPath e1 = (es0, Inr cp) \<and> readConfig e1 cp = (es1, Inr orig)
        \<and> prepare1 e1 orig = (es2, Inr (changes, cfg')) \<and> Marshal e1 cfg' = Inr out"
  then have m: "main1 e1 = (es0 @ es1 @ es2 @ fst (report changes)
                   @ fst (writer1 e1 cp orig out), snd (writer1 e1 cp orig out))"
    using main1_reaches_writer [of e1 es0 cp es1 orig es2 changes cfg' out] by simp
  from a have w: "writer1 e1 cp orig out =
     ([Stdout (nl @ ''---- Updated kubeconfig (try mode) ----'' @ nl), Stdout (out @ nl)], Inr ())"
    by (simp add: writer1_try)
  from m w show "main1 e1
          = (es0 @ es1 @ es2 @ fst (report changes)
               @ [Stdout (nl @ ''---- Updated kubeconfig (try mode) ----'' @ nl),
                  Stdout (out @ nl)],
             Inr ())"
    by simp
  then show "exitCode (snd (main1 e1)) = 0" by simp
next
  assume a: "tryFlag e2 \<and> expandPath e2 = (fs0, Inr cp2) \<and> readConfig e2 cp2 = (fs1, Inr orig2)
        \<and> prepare2 e2 orig2 = (fs2, Inr (changes2, cfg2')) \<and> Write e2 cfg2' = Inr out2"
  then have m: "main2 e2 = (fs0 @ fs1 @ fs2 @ fst (report changes2)
                   @ fst (writer2 e2 cp2 orig2 cfg2'), snd (writer2 e2 cp2 orig2 cfg2'))"
    using main2_reaches_writer [of e2 fs0 cp2 fs1 orig2 fs2 changes2 cfg2'] by simp
  from a have w: "writer2 e2 cp2 orig2 cfg2' =
     ([Stdout (nl @ ''---- Updated kubeconfig (try mode) ----'' @ nl), Stdout (out2 @ nl)], Inr ())"
    by (simp add: writer2_try)
  from m w show "main2 e2
          = (fs0 @ fs1 @ fs2 @ fst (report changes2)
               @ [Stdout (nl @ ''---- Updated kubeconfig (try mode) ----'' @ nl),
                  Stdout (out2 @ nl)],
             Inr ())"
    by simp
  then show "exitCode (snd (main2 e2)) = 0" by simp
qed

text \<open>
  C4 at the example environments with \<^verbatim>\<open>--try\<close>: the merged documents are serialized
  and printed, nothing is written.
\<close>

theorem try_mode_witness:
  "tryFlag exTryEnv1
   \<and> prepare1 exTryEnv1 ''disk''
       = ([Select ''Select a context to update'' [''prod'', ''new context'', ''new context''],
           Confirm ''Do you want to update the server URL for cluster prod-cluster?'',
           Text ''Paste kubeconfig file (press ctrl+d when done)''],
          Inr ([msgClusterCA1 exQuote ''prod-cluster'' [] ''TkVXQ0FEQVRBMTIzNDU2Nzg5'',
                msgClusterServer1 exQuote ''prod-cluster'' ''https://old.example:6443''
                  ''https://new.example:6443'',
                msgUserToken1 exQuote ''prod-user'' ''tok-old-aaaa'' ''tok-new-bbbb''],
               exMerged1))
   \<and> Marshal exTryEnv1 exMerged1
       = Inr (''prod-cluster: https://new.example:6443'' @ nl
                @ ''dev-cluster: https://dev.example:6443'' @ nl)
   \<and> writes (fst (main1 exTryEnv1)) = []
   \<and> last (printed (fst (main1 exTryEnv1)))
       = ''prod-cluster: https://new.example:6443'' @ nl
           @ ''dev-cluster: https://dev.example:6443'' @ nl @ nl
   \<and> exitCode (snd (main1 exTryEnv1)) = 0
   \<and> tryFlag exTryEnv2
   \<and> prepare2 exTryEnv2 ''disk''
       = ([Select ''Select a context to update'' [''prod'', ''new context'', ''new context''],
           Confirm ''Update server URL for cluster prod-cluster?'',
           Text ''Paste kubeconfig (ctrl+d when done)''],
          Inr ([msgClusterServer2 exQuote ''prod-cluster'' ''https://old.example:6443''
                  ''https://new.example:6443'',
                msgClusterCA2 exQuote ''prod-cluster'' [] ''NEWCADATA123'',
                msgUserToken2 exQuote ''prod-user'' ''tok-old-aaaa'' ''tok-new-bbbb''],
               exMerged2))
   \<and> Write exTryEnv2 exMerged2
       = Inr (''prod-cluster: https://new.example:6443'' @ nl
                @ ''dev-cluster: https://dev.example:6443'' @ nl)
   \<and> writes (fst (main2 exTryEnv2)) = []
   \<and> last (printed (fst (main2 exTryEnv2)))
       = ''prod-cluster: https://new.example:6443'' @ nl
           @ ''dev-cluster: https://dev.example:6443'' @ nl @ nl
   \<and> exitCode (snd (main2 exTryEnv2)) = 0"
proof -
  have t1: "tryFlag exTryEnv1" by (simp add: exTryEnv1_def)
  have t2: "tryFlag exTryEnv2" by (simp add: exTryEnv2_def)
  have x1: "expandPath exTryEnv1 = ([], Inr ''/k/config'')"
    by (simp add: expandPath_def io_defs exTryEnv1_def exEnv1_def)
  have x2: "expandPath exTryEnv2 = ([], Inr ''/k/config'')"
    by (simp add: expandPath_def io_defs exTryEnv2_def exEnv2_def)
  have r1: "readConfig exTryEnv1 ''/k/config'' = ([], Inr ''disk'')"
    by (simp add: readConfig_def io_defs exTryEnv1_def exEnv1_def)
  have r2: "readConfig exTryEnv2 ''/k/config'' = ([], Inr ''disk'')"
    by (simp add: readConfig_def io_defs exTryEnv2_def exEnv2_def)
  have p1: "prepare1 exTryEnv1 ''disk''
       = ([Select ''Select a context to update'' [''prod'', ''new context'', ''new context''],
           Confirm ''Do you want to update the server URL for cluster prod-cluster?'',
           Text ''Paste kubeconfig file (press ctrl+d when done)''],
          Inr ([msgClusterCA1 exQuote ''prod-cluster'' [] ''TkVXQ0FEQVRBMTIzNDU2Nzg5'',
                msgClusterServer1 exQuote ''prod-cluster'' ''https://old.example:6443''
                  ''https://new.example:6443'',
                msgUserToken1 exQuote ''prod-user'' ''tok-old-aaaa'' ''tok-new-bbbb''],
               exMerged1))"
    by (simp add: step_defs1 io_defs ex_defs Let_def)
  have p2: "prepare2 exTryEnv2 ''disk''
       = ([Select ''Select a context to update'' [''prod'', ''new context'', ''new context''],
           Confirm ''Update server URL for cluster prod-cluster?'',
           Text ''Paste kubeconfig (ctrl+d when done)''],
          Inr ([msgClusterServer2 exQuote ''prod-cluster'' ''https://old.example:6443''
                  ''https://new.example:6443'',
                msgClusterCA2 exQuote ''prod-cluster'' [] ''NEWCADATA123'',
                msgUserToken2 exQuote ''prod-user'' ''tok-old-aaaa'' ''tok-new-bbbb''],
               exMerged2))"
    by (simp add: step_defs2 io_defs ex_defs Let_def)
  have m1: "Marshal exTryEnv1 exMerged1
       = Inr (''prod-cluster: https://new.example:6443'' @ nl
                @ ''dev-cluster: https://dev.example:6443'' @ nl)"
    by (simp add: ex_defs)
  have m2: "Write exTryEnv2 exMerged2
       = Inr (''prod-cluster: https://new.example:6443'' @ nl
                @ ''dev-cluster: https://dev.example:6443'' @ nl)"
    by (simp add: ex_defs)
  note t = try_mode [where ?e1.0 = exTryEnv1 and ?es0.0 = "[]" and cp = "''/k/config''"
      and ?es1.0 = "[]" and orig = "''disk''"
      and ?es2.0 = "[Select ''Select a context to update''
                       [''prod'', ''new context'', ''new context''],
           Confirm ''Do you want to update the server URL for cluster prod-cluster?'',
           Text ''Paste kubeconfig file (press ctrl+d when done)'']"
      and changes = "[msgClusterCA1 exQuote ''prod-cluster'' [] ''TkVXQ0FEQVRBMTIzNDU2Nzg5'',
                msgClusterServer1 exQuote ''prod-cluster'' ''https://old.example:6443''
                  ''https://new.example:6443'',
                msgUserToken1 exQuote ''prod-user'' ''tok-old-aaaa'' ''tok-new-bbbb'']"
      and cfg' = exMerged1
      and out = "''prod-cluster: https://new.example:6443'' @ nl
                @ ''dev-cluster: https://dev.example:6443'' @ nl"
      and ?e2.0 = exTryEnv2 and ?fs0.0 = "[]" and ?cp2.0 = "''/k/config''"
      and ?fs1.0 = "[]" and ?orig2.0 = "''disk''"
      and ?fs2.0 = "[Select ''Select a context to update''
                       [''prod'', ''new context'', ''new context''],
           Confirm ''Update server URL for cluster prod-cluster?'',
           Text ''Paste kubeconfig (ctrl+d when done)'']"
      and ?changes2.0 = "[msgClusterServer2 exQuote ''prod-cluster'' ''https://old.example:6443''
                  ''https://new.example:6443'',
                msgClusterCA2 exQuote ''prod-cluster'' [] ''NEWCADATA123'',
                msgUserToken2 exQuote ''prod-user'' ''tok-old-aaaa'' ''tok-new-bbbb'']"
      and cfg2' = exMerged2
      and ?out2.0 = "''prod-cluster: https://new.example:6443'' @ nl
                @ ''dev-cluster: https://dev.example:6443'' @ nl"]
  from t t1 x1 r1 p1 m1 have a:
    "writes (fst (main1 exTryEnv1)) = []"
    "last (printed (fst (main1 exTryEnv1)))
       = ''prod-cluster: https://new.example:6443'' @ nl
           @ ''dev-cluster: https://dev.example:6443'' @ nl @ nl"
    "exitCode (snd (main1 exTryEnv1)) = 0"
    by (simp_all add: report_def)
  from t t2 x2 r2 p2 m2 have b:
    "writes (fst (main2 exTryEnv2)) = []"
    "last (printed (fst (main2 exTryEnv2)))
       = ''prod-cluster: https://new.example:6443'' @ nl
           @ ''dev-cluster: https://dev.example:6443'' @ nl @ nl"
    "exitCode (snd (main2 exTryEnv2)) = 0"
    by (simp_all add: report_def)
  from t1 p1 m1 a t2 p2 m2 b show ?thesis by blast
qed

subsection \<open>C3: the backup\<close>

text \<open>
  In apply mode the Writer of either program first writes the bytes it was given as
  \<^verbatim>\<open>origData\<close> to the backup path; when that write fails it prints an error and exits
  with status 1 and the target path is not written. \<^verbatim>\<open>origData\<close> is what
  \<^verbatim>\<open>ioutil.ReadFile\<close> returned. The backup path of the first program ends in the date
  as \<open>YYYYMMDD\<close>, the one of the second program in the RFC 3339 date and time.
\<close>

lemma readConfig_Inr: "readConfig e cp = (es, Inr d) \<Longrightarrow> es = [] \<and> ReadFile e cp = Inr d"
  by (auto simp: readConfig_def io_defs split: sum.splits)

lemma writer1_apply:
  "\<not> tryFlag e \<Longrightarrow>
   writer1 e cp orig out =
     (let bp = cp @ ''.backup.'' @ Format_20060102 (Now e)
      in case WriteFileErr e bp orig of
           Some err \<Rightarrow>
             ([WriteFile bp orig, Stderr (''Error writing backup file: '' @ err @ nl)],
              Inl (Exit 1))
         | None \<Rightarrow>
            (case WriteFileErr e cp out of
               Some err \<Rightarrow>
                 ([WriteFile bp orig,
                   Stdout (''Backup of original kubeconfig saved as '' @ bp @ nl),
                   WriteFile cp out,
                   Stderr (''Error writing updated kubeconfig: '' @ err @ nl)],
                  Inl (Exit 1))
             | None \<Rightarrow>
                 ([WriteFile bp orig,
                   Stdout (''Backup of original kubeconfig saved as '' @ bp @ nl),
                   WriteFile cp out,
                   Stdout (''Kubeconfig updated successfully in '' @ cp @ nl)],
                  Inr ())))"
  by (simp add: writer1_def io_defs Let_def split: option.splits)

lemma writer2_apply:
  "\<not> tryFlag e \<Longrightarrow>
   writer2 e cp orig cfg =
     (let bp = cp @ ''.backup.'' @ Format_RFC3339 (Now e)
      in case WriteFileErr e bp orig of
           Some err \<Rightarrow>
             ([WriteFile bp orig, Stderr (''Error creating backup: '' @ err @ nl)],
              Inl (Exit 1))
         | None \<Rightarrow>
            (case Write e cfg of
               Inl err \<Rightarrow>
                 ([WriteFile bp orig, Stdout (''Backup saved to '' @ bp @ nl),
                   Stderr (''Error marshaling updated config: '' @ err @ nl)],
                  Inl (Exit 1))
             | Inr out \<Rightarrow>
                (case WriteFileErr e cp out of
                   Some err \<Rightarrow>
                     ([WriteFile bp orig, Stdout (''Backup saved to '' @ bp @ nl),
                       WriteFile cp out,
                       Stderr (''Error writing updated config: '' @ err @ nl)],
                      Inl (Exit 1))
                 | None \<Rightarrow>
                     ([WriteFile bp orig, Stdout (''Backup saved to '' @ bp @ nl),
                       WriteFile cp out, Stdout (''Successfully updated '' @ cp @ nl)],
                      Inr ()))))"
  by (simp add: writer2_def io_defs Let_def split: option.splits sum.splits)

text \<open>
  For a whole run in apply mode: it writes nothing, or the backup only, or the backup
  and then the target; the backup holds the bytes that were read from the configured
  path, and the target is written only after the backup write has succeeded.
\<close>

lemma writes_bind:
  "writes (fst (io_bind m f))
     = writes (fst m) @ (case snd m of Inl a \<Rightarrow> [] | Inr x \<Rightarrow> writes (fst (f x)))"
  by (cases m) (auto simp: io_bind_def writes_append split: sum.splits prod.splits)

lemma readConfig_snd: "snd (readConfig e cp) = Inr d \<Longrightarrow> ReadFile e cp = Inr d"
  by (auto simp: readConfig_def io_defs split: sum.splits)

lemma marshal1_snd: "snd (marshal1 e cfg) = Inr out \<Longrightarrow> Marshal e cfg = Inr out"
  by (auto simp: marshal1_def io_defs split: sum.splits)

lemma report_snd: "snd (report changes) = Inr ()"
  by (simp add: report_def)

lemma main1_writes:
  "writes (fst (main1 e))
     = (case snd (expandPath e) of Inl a \<Rightarrow> [] | Inr cp \<Rightarrow>
         (case snd (readConfig e cp) of Inl a \<Rightarrow> [] | Inr orig \<Rightarrow>
           (case snd (prepare1 e orig) of Inl a \<Rightarrow> [] | Inr (changes, cfg') \<Rightarrow>
             (case snd (marshal1 e cfg') of Inl a \<Rightarrow> [] | Inr out \<Rightarrow>
                writes (fst (writer1 e cp orig out))))))"
  by (simp add: main1_def writes_bind nowrites_expandPath nowrites_readConfig
      nowrites_prepare1 nowrites_marshal1 nowrites_report report_snd
      split: sum.splits prod.splits)

lemma main2_writes:
  "writes (fst (main2 e))
     = (case snd (expandPath e) of Inl a \<Rightarrow> [] | Inr cp \<Rightarrow>
         (case snd (readConfig e cp) of Inl a \<Rightarrow> [] | Inr orig \<Rightarrow>
           (case snd (prepare2 e orig) of Inl a \<Rightarrow> [] | Inr (changes, cfg') \<Rightarrow>
              writes (fst (writer2 e cp orig cfg')))))"
  by (simp add: main2_def writes_bind nowrites_expandPath nowrites_readConfig
      nowrites_prepare2 nowrites_report report_snd
      split: sum.splits prod.splits)

lemma main1_backup_first:
  assumes "\<not> tryFlag e"
  shows "writes (fst (main1 e)) = []
     \<or> (\<exists>cp orig. ReadFile e cp = Inr orig
          \<and> (writes (fst (main1 e))
                = [(cp @ ''.backup.'' @ Format_20060102 (Now e), orig)]
              \<or> (WriteFileErr e (cp @ ''.backup.'' @ Format_20060102 (Now e)) orig = None
                  \<and> (\<exists>out. writes (fst (main1 e))
                        = [(cp @ ''.backup.'' @ Format_20060102 (Now e), orig), (cp, out)]))))"
  using assms
  by (auto simp: main1_writes writer1_apply Let_def dest: readConfig_snd
      split: sum.splits prod.splits option.splits)

lemma main2_backup_first:
  assumes "\<not> tryFlag e"
  shows "writes (fst (main2 e)) = []
     \<or> (\<exists>cp orig. ReadFile e cp = Inr orig
          \<and> (writes (fst (main2 e))
                = [(cp @ ''.backup.'' @ Format_RFC3339 (Now e), orig)]
              \<or> (WriteFileErr e (cp @ ''.backup.'' @ Format_RFC3339 (Now e)) orig = None
                  \<and> (\<exists>out. writes (fst (main2 e))
                        = [(cp @ ''.backup.'' @ Format_RFC3339 (Now e), orig), (cp, out)]))))"
  using assms
  by (auto simp: main2_writes writer2_apply Let_def dest: readConfig_snd
      split: sum.splits prod.splits option.splits)

text \<open>
  In the example environment of the second program every key order is one that a
  \<^verbatim>\<open>range\<close> over the map can take.
\<close>

lemma exEnv2_orders:
  "enumerates (mapOrder exEnv2 513) (cfg_Contexts exDisk2)
   \<and> enumerates (mapOrder exEnv2 613) (cfg_Clusters exPasted2)
   \<and> enumerates (mapOrder exEnv2 635) (cfg_Contexts exPasted2)
   \<and> enumerates (mapOrder exEnv2 643) (cfg_Contexts exPasted2)
   \<and> enumerates (mapOrder exEnv2 670) (cfg_AuthInfos exPasted2)"
  by (auto simp: enumerates_def exEnv2_def exDisk2_def exPasted2_def)

text \<open>
  Claim C3 says that the backup goes to \<open><config-path>.backup.<YYYYMMDD>\<close>. A run of
  the second program in apply mode on 2 January 2025 at 03:04:05 UTC, on the example
  documents: the backup is written first and holds the bytes read from the file, but
  its path ends in \<open>2025-01-02T03:04:05Z\<close>, not in \<open>20250102\<close>. The same run of the first
  program writes \<open>/k/config.backup.20250102\<close>.
\<close>

theorem backup_path_rfc3339:
  "\<not> tryFlag exEnv2
   \<and> Format_20060102 (Now exEnv2) = ''20250102''
   \<and> writes (fst (main2 exEnv2))
       = [(''/k/config.backup.2025-01-02T03:04:05Z'', ''disk''),
          (''/k/config'',
           ''prod-cluster: https://new.example:6443'' @ nl
             @ ''dev-cluster: https://dev.example:6443'' @ nl)]
   \<and> writes (fst (main1 exEnv1))
       = [(''/k/config.backup.20250102'', ''disk''),
          (''/k/config'',
           ''prod-cluster: https://new.example:6443'' @ nl
             @ ''dev-cluster: https://dev.example:6443'' @ nl)]"
  by (simp add: step_defs1 step_defs2 io_defs ex_defs Let_def Format_RFC3339_def
      Format_20060102_def pad_def digit_def)

subsection \<open>C5: a second run on the document of the first\<close>



































text \<open>
  The merge step alone, given twice the same pasted cluster and user: the second merge
  changes nothing.
\<close>

lemma merge_twice:
  "merge1 q nc us ti pc pu (fst (merge1 q nc us ti pc pu cfg))
     = (fst (merge1 q nc us ti pc pu cfg), [])
   \<and> (cfg_Contexts cfg2 tname = Some tctx \<longrightarrow>
        (\<exists>cfg' ch.
           merge2 q nc us tname tcn (Some pc2) (Some pu2) cfg2 = Inr (cfg', ch)
           \<and> merge2 q nc us tname tcn (Some pc2) (Some pu2) cfg' = Inr (cfg', [])))"
proof (intro conjI impI)
  obtain cfg' ch where m: "merge1 q nc us ti pc pu cfg = (cfg', ch)"
    by (cases "merge1 q nc us ti pc pu cfg")
  from merge1_idem [OF m] m
  show "merge1 q nc us ti pc pu (fst (merge1 q nc us ti pc pu cfg))
     = (fst (merge1 q nc us ti pc pu cfg), [])"
    by simp
next
  assume t: "cfg_Contexts cfg2 tname = Some tctx"
  from merge2_returns [OF t] obtain cfg' ch where
    m: "merge2 q nc us tname tcn (Some pc2) (Some pu2) cfg2 = Inr (cfg', ch)"
    by blast
  from merge2_Inr [OF m] obtain cfg1 ch1 tctx' ch2 where
    a: "updateCluster2 q nc us tcn (Some pc2) cfg2 = Inr (cfg1, ch1)" and
    b: "cfg_Contexts cfg1 tname = Some tctx'" and
    c: "updateUser2 q (ac_AuthInfo tctx') (Some pu2) cfg1 = Inr (cfg', ch2)"
    by blast
  note fc = updateUser2_frame [OF c]
  from fc have "cfg_Clusters cfg' = cfg_Clusters cfg1" by simp
  from updateCluster2_idem [OF a this]
  have d: "updateCluster2 q nc us tcn (Some pc2) cfg' = Inr (cfg', [])" .
  from fc b have e: "cfg_Contexts cfg' tname = Some tctx'" by simp
  from updateUser2_idem [OF c refl]
  have f: "updateUser2 q (ac_AuthInfo tctx') (Some pu2) cfg' = Inr (cfg', [])" .
  from d e f have "merge2 q nc us tname tcn (Some pc2) (Some pu2) cfg' = Inr (cfg', [])"
    by (simp add: merge2_def)
  with m show "\<exists>cfg' ch.
           merge2 q nc us tname tcn (Some pc2) (Some pu2) cfg2 = Inr (cfg', ch)
           \<and> merge2 q nc us tname tcn (Some pc2) (Some pu2) cfg' = Inr (cfg', [])"
    by blast
qed





end
